theory Spec2Isabelle
  imports Complex_Main
begin

section \<open>Python values that the client handles\<close>

text \<open>
  The client of jscom-mini-services is Python. Three things of the language show in its
  behaviour and are written out here: the values that \<^verbatim>\<open>response.json()\<close> can return,
  what \<^verbatim>\<open>str()\<close> and an f-string make of them, and which of them count as true.

  A string is a list of characters, each a code point below 256. A float is kept with
  the text that \<^verbatim>\<open>repr\<close> prints for it: the client compares floats with zero and prints
  them, and never computes with them. The two special floats \<^verbatim>\<open>nan\<close> and \<^verbatim>\<open>inf\<close> have no
  counterpart in this model.
\<close>

datatype pyfloat = PyFloat (fval: real) (frepr: string)

datatype jvalue =
    JNull
  | JBool bool
  | JInt int
  | JFloat pyfloat
  | JStr string
  | JArr "jvalue list"
  | JObj "(string \<times> jvalue) list"

text \<open>
  \<open>JObj\<close> lists the items of a \<^verbatim>\<open>dict\<close> in insertion order. The exceptions are those that
  the client raises itself (\<^verbatim>\<open>exceptions.py\<close>), those that the interpreter raises inside
  the client's code, \<^verbatim>\<open>typer.Exit\<close>, which is a \<^verbatim>\<open>RuntimeError\<close> carrying an exit code,
  and the \<^verbatim>\<open>MarkupError\<close> that the console raises on a text it cannot render.
  A \<open>KeyError\<close> carries the missing key, every other exception its message; the messages
  of the interpreter's own exceptions are those of CPython 3.12.
\<close>

datatype exn =
    JscomApiError string
  | AuthenticationError string
  | ValidationError string
  | ServerError string
  | NetworkError string
  | KeyError string
  | ValueError string
  | TypeError string
  | AttributeError string
  | MarkupError string
  | Exit int

subsection \<open>Printing\<close>

definition digit_char :: "nat \<Rightarrow> char" where
  "digit_char d = ''0123456789abcdef'' ! d"

fun str_nat :: "nat \<Rightarrow> string" where
  "str_nat n = (if n < 10 then [digit_char n] else str_nat (n div 10) @ [digit_char (n mod 10)])"

declare str_nat.simps [simp del]

definition str_int :: "int \<Rightarrow> string" where
  "str_int i = (if i < 0 then CHR ''-'' # str_nat (nat (- i)) else str_nat (nat i))"

definition isprintable :: "char \<Rightarrow> bool" where
  "isprintable c =
     (let n = (of_char c :: nat) in (32 \<le> n \<and> n < 127) \<or> (161 \<le> n \<and> n \<noteq> 173))"

definition repr_char :: "char \<Rightarrow> char \<Rightarrow> string" where
  "repr_char quote c =
     (if c = quote \<or> c = CHR 0x5C then [CHR 0x5C, c]
      else if c = CHR 0x09 then [CHR 0x5C, CHR ''t'']
      else if c = CHR 0x0A then [CHR 0x5C, CHR ''n'']
      else if c = CHR 0x0D then [CHR 0x5C, CHR ''r'']
      else if isprintable c then [c]
      else [CHR 0x5C, CHR ''x'', digit_char (of_char c div 16), digit_char (of_char c mod 16)])"

definition repr_str :: "string \<Rightarrow> string" where
  "repr_str s =
     (let quote = (if CHR 0x27 \<in> set s \<and> CHR 0x22 \<notin> set s then CHR 0x22 else CHR 0x27)
      in quote # concat (map (repr_char quote) s) @ [quote])"

fun join :: "string \<Rightarrow> string list \<Rightarrow> string" where
  "join sep [] = []"
| "join sep [x] = x"
| "join sep (x # y # ys) = x @ sep @ join sep (y # ys)"

primrec py_repr :: "jvalue \<Rightarrow> string" where
  "py_repr JNull = ''None''"
| "py_repr (JBool b) = (if b then ''True'' else ''False'')"
| "py_repr (JInt i) = str_int i"
| "py_repr (JFloat f) = frepr f"
| "py_repr (JStr s) = repr_str s"
| "py_repr (JArr xs) = ''['' @ join '', '' (map py_repr xs) @ '']''"
| "py_repr (JObj kvs) =
     ''{'' @ join '', '' (map (\<lambda>(k, r). repr_str k @ '': '' @ r) (map (map_prod id py_repr) kvs)) @ ''}''"

text \<open>\<^verbatim>\<open>str(v)\<close>, which is also what an f-string field \<^verbatim>\<open>{v}\<close> prints.\<close>

definition py_str :: "jvalue \<Rightarrow> string" where
  "py_str v = (case v of JStr s \<Rightarrow> s | _ \<Rightarrow> py_repr v)"

definition type_name :: "jvalue \<Rightarrow> string" where
  "type_name v =
     (case v of JNull \<Rightarrow> ''NoneType'' | JBool _ \<Rightarrow> ''bool'' | JInt _ \<Rightarrow> ''int''
      | JFloat _ \<Rightarrow> ''float'' | JStr _ \<Rightarrow> ''str'' | JArr _ \<Rightarrow> ''list'' | JObj _ \<Rightarrow> ''dict'')"

text \<open>\<^verbatim>\<open>str(e)\<close> of an exception; \<^verbatim>\<open>typer.Exit\<close> keeps no message.\<close>

definition exn_str :: "exn \<Rightarrow> string" where
  "exn_str e =
     (case e of JscomApiError m \<Rightarrow> m | AuthenticationError m \<Rightarrow> m | ValidationError m \<Rightarrow> m
      | ServerError m \<Rightarrow> m | NetworkError m \<Rightarrow> m | KeyError k \<Rightarrow> repr_str k
      | ValueError m \<Rightarrow> m | TypeError m \<Rightarrow> m | AttributeError m \<Rightarrow> m | MarkupError m \<Rightarrow> m
      | Exit _ \<Rightarrow> [])"

subsection \<open>Truth values, membership and subscripts\<close>

text \<open>What \<^verbatim>\<open>if v:\<close> tests.\<close>

definition truthy :: "jvalue \<Rightarrow> bool" where
  "truthy v =
     (case v of JNull \<Rightarrow> False | JBool b \<Rightarrow> b | JInt i \<Rightarrow> i \<noteq> 0 | JFloat f \<Rightarrow> fval f \<noteq> 0
      | JStr s \<Rightarrow> s \<noteq> [] | JArr xs \<Rightarrow> xs \<noteq> [] | JObj kvs \<Rightarrow> kvs \<noteq> [])"

text \<open>The same test on a value of type \<^verbatim>\<open>str | None\<close>.\<close>

definition truthy_str :: "string option \<Rightarrow> bool" where
  "truthy_str a = (case a of None \<Rightarrow> False | Some s \<Rightarrow> s \<noteq> [])"

fun startswith :: "string \<Rightarrow> string \<Rightarrow> bool" where
  "startswith s [] = True"
| "startswith [] (c # cs) = False"
| "startswith (d # ds) (c # cs) = (d = c \<and> startswith ds cs)"

fun substring :: "string \<Rightarrow> string \<Rightarrow> bool" where
  "substring k [] = (k = [])"
| "substring k (c # cs) = (startswith (c # cs) k \<or> substring k cs)"

text \<open>
  \<^verbatim>\<open>k in v\<close> for a string \<open>k\<close>: a key of a dict, an element of a list, a substring of a
  string, and a \<^verbatim>\<open>TypeError\<close> on a value that is no container.
\<close>

definition contains :: "string \<Rightarrow> jvalue \<Rightarrow> exn + bool" where
  "contains k v =
     (case v of JObj kvs \<Rightarrow> Inr (map_of kvs k \<noteq> None)
      | JArr xs \<Rightarrow> Inr (JStr k \<in> set xs)
      | JStr s \<Rightarrow> Inr (substring k s)
      | _ \<Rightarrow> Inl (TypeError (''argument of type '' @ [CHR 0x27] @ type_name v @ [CHR 0x27]
                                @ '' is not iterable'')))"

text \<open>
  \<^verbatim>\<open>v[k]\<close> for a string \<open>k\<close>: the value under the key of a dict, a \<^verbatim>\<open>KeyError\<close> when the
  dict lacks the key, and a \<^verbatim>\<open>TypeError\<close> on everything that is not a dict.
\<close>

definition getitem :: "jvalue \<Rightarrow> string \<Rightarrow> exn + jvalue" where
  "getitem v k =
     (case v of JObj kvs \<Rightarrow> (case map_of kvs k of None \<Rightarrow> Inl (KeyError k) | Some x \<Rightarrow> Inr x)
      | JArr _ \<Rightarrow> Inl (TypeError ''list indices must be integers or slices, not str'')
      | JStr _ \<Rightarrow> Inl (TypeError (''string indices must be integers, not '' @ repr_str ''str''))
      | _ \<Rightarrow> Inl (TypeError ([CHR 0x27] @ type_name v @ [CHR 0x27] @ '' object is not subscriptable'')))"

section \<open>The HTTP exchange\<close>

text \<open>
  A response as the client reads it: \<^verbatim>\<open>status_code\<close>, \<^verbatim>\<open>text\<close>, and the outcome of
  \<^verbatim>\<open>json()\<close>, either the parsed value or the message of the \<^verbatim>\<open>ValueError\<close> that the
  parser raises. The JSON parser belongs to the HTTP library and is not modelled.
\<close>

record response =
  status_code :: int
  body_text :: string
  json :: "string + jvalue"

section \<open>The error-body parser\<close>

text \<open>
  \<^verbatim>\<open>JscomApiClient._parse_error_response\<close> (client.py). Only the \<^verbatim>\<open>ValueError\<close> of
  \<^verbatim>\<open>json()\<close> is caught; an exception of the membership test or of a subscript leaves the
  function.
\<close>

definition parse_error_response :: "response \<Rightarrow> exn + string" where
  "parse_error_response response =
     (case json response of
        Inl _ \<Rightarrow>
          Inr (if body_text response \<noteq> [] then body_text response
               else ''HTTP '' @ str_int (status_code response))
      | Inr error_data \<Rightarrow>
          (case contains ''error'' error_data of
             Inl x \<Rightarrow> Inl x
           | Inr True \<Rightarrow>
               (case contains ''message'' error_data of
                  Inl x \<Rightarrow> Inl x
                | Inr True \<Rightarrow>
                    (case getitem error_data ''error'' of
                       Inl x \<Rightarrow> Inl x
                     | Inr e \<Rightarrow>
                         (case getitem error_data ''message'' of
                            Inl x \<Rightarrow> Inl x
                          | Inr m \<Rightarrow> Inr (py_str e @ '': '' @ py_str m)))
                | Inr False \<Rightarrow>
                    (case getitem error_data ''error'' of
                       Inl x \<Rightarrow> Inl x
                     | Inr e \<Rightarrow> Inr (py_str e)))
           | Inr False \<Rightarrow> Inr (py_str error_data)))"

section \<open>Configuration\<close>

text \<open>
  \<^verbatim>\<open>Config\<close> and \<^verbatim>\<open>load_config\<close> (config.py). The process environment is a record of
  the three variables that \<^verbatim>\<open>os.getenv\<close> is asked for, each absent or a string. Python's
  \<^verbatim>\<open>float()\<close> is a parameter \<open>to_float\<close>: it returns the float that a text denotes, and
  \<open>None\<close> stands for its \<^verbatim>\<open>ValueError\<close>.
\<close>

record Config =
  base_url :: string
  auth_token :: "string option"
  timeout :: pyfloat

record environ =
  JSCOM_API_BASE_URL :: "string option"
  JSCOM_API_TOKEN :: "string option"
  JSCOM_API_TIMEOUT :: "string option"

definition default_config :: Config where
  "default_config =
     \<lparr>base_url = ''https://api.johnsosoka.com'', auth_token = None,
      timeout = PyFloat 30 ''30.0''\<rparr>"

text \<open>\<^verbatim>\<open>a or b\<close> where both are \<^verbatim>\<open>str | None\<close>, and where \<open>b\<close> is a string.\<close>

definition or_opt :: "string option \<Rightarrow> string option \<Rightarrow> string option" where
  "or_opt a b = (if truthy_str a then a else b)"

definition or_str :: "string option \<Rightarrow> string \<Rightarrow> string" where
  "or_str a b = (case a of None \<Rightarrow> b | Some s \<Rightarrow> if s \<noteq> [] then s else b)"

definition load_config ::
  "(string \<Rightarrow> pyfloat option) \<Rightarrow> environ \<Rightarrow> string option \<Rightarrow> string option \<Rightarrow> pyfloat option \<Rightarrow> Config"
where
  "load_config to_float env base_url_arg auth_token_arg timeout_arg =
     (let resolved_base_url =
            or_str (or_opt base_url_arg (JSCOM_API_BASE_URL env)) (base_url default_config);
          resolved_auth_token = or_opt auth_token_arg (JSCOM_API_TOKEN env);
          resolved_timeout =
            (case timeout_arg of
               Some t \<Rightarrow> t
             | None \<Rightarrow>
                 (case JSCOM_API_TIMEOUT env of
                    None \<Rightarrow> timeout default_config
                  | Some env_timeout \<Rightarrow>
                      if env_timeout \<noteq> [] then
                        (case to_float env_timeout of
                           Some t \<Rightarrow> t
                         | None \<Rightarrow> timeout default_config)
                      else timeout default_config))
      in \<lparr>base_url = resolved_base_url, auth_token = resolved_auth_token,
          timeout = resolved_timeout\<rparr>)"

section \<open>The API client\<close>

text \<open>
  The attributes that \<^verbatim>\<open>JscomApiClient.__init__\<close> sets (client.py). The constructor
  refuses a timeout that is not positive and strips the base URL with \<^verbatim>\<open>rstrip("/")\<close>.
\<close>

record client =
  self_base_url :: string
  self_auth_token :: "string option"
  self_timeout :: pyfloat

definition rstrip :: "char \<Rightarrow> string \<Rightarrow> string" where
  "rstrip c s = rev (dropWhile (\<lambda>x. x = c) (rev s))"

definition JscomApiClient :: "string \<Rightarrow> string option \<Rightarrow> pyfloat \<Rightarrow> exn + client" where
  "JscomApiClient base_url_arg auth_token_arg timeout_arg =
     (if fval timeout_arg \<le> 0 then
        Inl (ValueError (''timeout must be positive, got '' @ frepr timeout_arg))
      else
        Inr \<lparr>self_base_url = rstrip CHR ''/'' base_url_arg, self_auth_token = auth_token_arg,
             self_timeout = timeout_arg\<rparr>)"

text \<open>
  Both commands of the command line build their client in the same two steps (main.py,
  in \<^verbatim>\<open>ip\<close> and in \<^verbatim>\<open>dns_update\<close>): \<^verbatim>\<open>load_config\<close>, then the constructor on the
  three fields of the result. The specification calls the two steps together \<open>resolve\<close>.
\<close>

definition resolve ::
  "(string \<Rightarrow> pyfloat option) \<Rightarrow> environ \<Rightarrow> string option \<Rightarrow> string option \<Rightarrow> pyfloat option
     \<Rightarrow> exn + client"
where
  "resolve to_float env base_url_arg auth_token_arg timeout_arg =
     (let config = load_config to_float env base_url_arg auth_token_arg timeout_arg
      in JscomApiClient (base_url config) (auth_token config) (timeout config))"

subsection \<open>Requests\<close>

text \<open>
  A request is what the client hands to \<^verbatim>\<open>session.get\<close> or \<^verbatim>\<open>session.post\<close>. The network
  answers a request with a response or with the message of a \<^verbatim>\<open>RequestException\<close>.
  The client functions take the list of the requests issued so far and return it extended.
\<close>

record request =
  http_method :: string
  url :: string
  headers :: "(string \<times> string) list"
  json_arg :: "jvalue option"
  request_timeout :: pyfloat

type_synonym network = "request \<Rightarrow> string + response"

record IpResponse =
  ip :: jvalue

record DnsUpdateResponse =
  message :: jvalue
  change_info :: jvalue

subsection \<open>\<^verbatim>\<open>get_my_ip\<close>\<close>

definition get_my_ip_request :: "client \<Rightarrow> request" where
  "get_my_ip_request self =
     \<lparr>http_method = ''GET'', url = self_base_url self @ ''/v1/ip/my'', headers = [],
      json_arg = None, request_timeout = self_timeout self\<rparr>"

text \<open>What \<^verbatim>\<open>get_my_ip\<close> makes of the outcome of its request.\<close>

definition get_my_ip_outcome :: "string + response \<Rightarrow> exn + IpResponse" where
  "get_my_ip_outcome outcome =
     (case outcome of
        Inl e \<Rightarrow> Inl (NetworkError (''Failed to connect to API: '' @ e))
      | Inr response \<Rightarrow>
          if status_code response \<ge> 500 then
            (case parse_error_response response of
               Inl x \<Rightarrow> Inl x
             | Inr error_data \<Rightarrow> Inl (ServerError (''Server error: '' @ error_data)))
          else if status_code response \<noteq> 200 then
            (case parse_error_response response of
               Inl x \<Rightarrow> Inl x
             | Inr error_data \<Rightarrow>
                 Inl (NetworkError (''Unexpected status '' @ str_int (status_code response)
                                      @ '': '' @ error_data)))
          else
            (case json response of
               Inl e \<Rightarrow> Inl (NetworkError (''Invalid JSON response: '' @ e))
             | Inr data \<Rightarrow>
                 (case getitem data ''ip'' of
                    Inl (KeyError k) \<Rightarrow>
                      Inl (ValidationError (''API response missing required field: ''
                                              @ exn_str (KeyError k)))
                  | Inl x \<Rightarrow> Inl x
                  | Inr v \<Rightarrow> Inr \<lparr>ip = v\<rparr>)))"

definition get_my_ip ::
  "network \<Rightarrow> client \<Rightarrow> request list \<Rightarrow> (exn + IpResponse) \<times> request list" where
  "get_my_ip net self sent_before =
     (let req = get_my_ip_request self
      in (get_my_ip_outcome (net req), sent_before @ [req]))"

subsection \<open>\<^verbatim>\<open>update_dns\<close>\<close>

definition update_dns_request :: "client \<Rightarrow> string \<Rightarrow> jvalue \<Rightarrow> request" where
  "update_dns_request self domain ip_arg =
     (let hdrs = [(''Content-Type'', ''application/json'')];
          hdrs' = (case self_auth_token self of
                     None \<Rightarrow> hdrs
                   | Some token \<Rightarrow> if token \<noteq> [] then hdrs @ [(''x-auth-token'', token)] else hdrs);
          payload = JObj [(''domain'', JStr domain), (''ip'', ip_arg)]
      in \<lparr>http_method = ''POST'', url = self_base_url self @ ''/v1/dns/update'', headers = hdrs',
          json_arg = Some payload, request_timeout = self_timeout self\<rparr>)"

text \<open>What \<^verbatim>\<open>update_dns\<close> makes of the outcome of its request.\<close>

definition update_dns_outcome :: "string + response \<Rightarrow> exn + DnsUpdateResponse" where
  "update_dns_outcome outcome =
     (case outcome of
        Inl e \<Rightarrow> Inl (NetworkError (''Failed to connect to API: '' @ e))
      | Inr response \<Rightarrow>
          if status_code response = 403 then
            (case parse_error_response response of
               Inl x \<Rightarrow> Inl x
             | Inr error_data \<Rightarrow>
                 Inl (AuthenticationError (''Authentication failed: '' @ error_data)))
          else if status_code response = 400 then
            (case parse_error_response response of
               Inl x \<Rightarrow> Inl x
             | Inr error_data \<Rightarrow> Inl (ValidationError (''Validation error: '' @ error_data)))
          else if status_code response \<ge> 500 then
            (case parse_error_response response of
               Inl x \<Rightarrow> Inl x
             | Inr error_data \<Rightarrow> Inl (ServerError (''Server error: '' @ error_data)))
          else if status_code response \<noteq> 200 then
            (case parse_error_response response of
               Inl x \<Rightarrow> Inl x
             | Inr error_data \<Rightarrow>
                 Inl (NetworkError (''Unexpected status '' @ str_int (status_code response)
                                      @ '': '' @ error_data)))
          else
            (case json response of
               Inl e \<Rightarrow> Inl (NetworkError (''Invalid JSON response: '' @ e))
             | Inr data \<Rightarrow>
                 (case getitem data ''message'' of
                    Inl (KeyError k) \<Rightarrow>
                      Inl (ValidationError (''API response missing required field: ''
                                              @ exn_str (KeyError k)))
                  | Inl x \<Rightarrow> Inl x
                  | Inr m \<Rightarrow>
                      (case getitem data ''change_info'' of
                         Inl (KeyError k) \<Rightarrow>
                           Inl (ValidationError (''API response missing required field: ''
                                                   @ exn_str (KeyError k)))
                       | Inl x \<Rightarrow> Inl x
                       | Inr c \<Rightarrow> Inr \<lparr>message = m, change_info = c\<rparr>))))"

definition update_dns ::
  "network \<Rightarrow> client \<Rightarrow> string \<Rightarrow> jvalue \<Rightarrow> request list
     \<Rightarrow> (exn + DnsUpdateResponse) \<times> request list" where
  "update_dns net self domain ip_arg sent_before =
     (let req = update_dns_request self domain ip_arg
      in (update_dns_outcome (net req), sent_before @ [req]))"

section \<open>The command \<^verbatim>\<open>dns update\<close>\<close>

text \<open>
  \<^verbatim>\<open>dns_update\<close> (cli/main.py). What the command does to the outside is kept in a record:
  the requests issued, what was printed on the console (a line of text, or the rows of the
  change table) and what was printed on the error console. \<^verbatim>\<open>state\<close> holds the two global
  options \<^verbatim>\<open>--base-url\<close> and \<^verbatim>\<open>--token\<close>.

  Both consoles read what they print as console markup, the texts that the command puts
  into its lines included, and raise \<^verbatim>\<open>MarkupError\<close> on a text they cannot render (a closing
  tag such as \<^verbatim>\<open>[/x]\<close> with no tag open). The rendering library is a parameter \<open>rich\<close>: it
  returns \<open>None\<close> for what it renders, and otherwise the message of the \<^verbatim>\<open>MarkupError\<close>;
  nothing is printed then.
\<close>

datatype printed = Text string | Table "(string \<times> string) list"

type_synonym renderer = "printed \<Rightarrow> string option"

record world =
  sent :: "request list"
  console :: "printed list"
  err_console :: "string list"

record State =
  state_base_url :: "string option"
  state_token :: "string option"

text \<open>
  A step of the command takes the state of the outside and returns it changed, with a
  value or with the exception that the step raises. \<open>and_then\<close> runs a second step on the
  value of a first and stops at the first exception, as two statements in a row do.
\<close>

type_synonym 'a step = "world \<Rightarrow> (exn + 'a) \<times> world"

definition and_then :: "'a step \<Rightarrow> ('a \<Rightarrow> 'b step) \<Rightarrow> 'b step" where
  "and_then f g = (\<lambda>w. case f w of (Inl e, w') \<Rightarrow> (Inl e, w') | (Inr x, w') \<Rightarrow> g x w')"

definition raise :: "exn \<Rightarrow> 'a step" where
  "raise e = (\<lambda>w. (Inl e, w))"

definition return :: "'a \<Rightarrow> 'a step" where
  "return x = (\<lambda>w. (Inr x, w))"

definition console_print :: "renderer \<Rightarrow> printed \<Rightarrow> unit step" where
  "console_print rich x =
     (\<lambda>w. case rich x of
            None \<Rightarrow> (Inr (), w\<lparr>console := console w @ [x]\<rparr>)
          | Some m \<Rightarrow> (Inl (MarkupError m), w))"

definition err_print :: "renderer \<Rightarrow> string \<Rightarrow> unit step" where
  "err_print rich x =
     (\<lambda>w. case rich (Text x) of
            None \<Rightarrow> (Inr (), w\<lparr>err_console := err_console w @ [x]\<rparr>)
          | Some m \<Rightarrow> (Inl (MarkupError m), w))"

text \<open>The two calls of the client, on the requests of the record.\<close>

definition call_get_my_ip :: "network \<Rightarrow> client \<Rightarrow> IpResponse step" where
  "call_get_my_ip net cl =
     (\<lambda>w. case get_my_ip net cl (sent w) of (r, sent') \<Rightarrow> (r, w\<lparr>sent := sent'\<rparr>))"

definition call_update_dns :: "network \<Rightarrow> client \<Rightarrow> string \<Rightarrow> jvalue \<Rightarrow> DnsUpdateResponse step" where
  "call_update_dns net cl domain ip_arg =
     (\<lambda>w. case update_dns net cl domain ip_arg (sent w) of (r, sent') \<Rightarrow> (r, w\<lparr>sent := sent'\<rparr>))"

text \<open>\<^verbatim>\<open>v.items()\<close>: only a dict has the method.\<close>

definition items :: "jvalue \<Rightarrow> exn + (string \<times> jvalue) list" where
  "items v =
     (case v of JObj kvs \<Rightarrow> Inr kvs
      | _ \<Rightarrow> Inl (AttributeError ([CHR 0x27] @ type_name v @ [CHR 0x27]
                                    @ '' object has no attribute '' @ repr_str ''items'')))"

text \<open>
  The first step inside the client's \<^verbatim>\<open>with\<close> block: the target is \<^verbatim>\<open>--ip\<close>, or the
  address that \<^verbatim>\<open>get_my_ip\<close> returns when \<^verbatim>\<open>--use-current-ip\<close> is given. An absent
  \<^verbatim>\<open>--ip\<close> is Python's \<^verbatim>\<open>None\<close>.
\<close>

definition fetch_target_ip ::
  "renderer \<Rightarrow> network \<Rightarrow> client \<Rightarrow> string option \<Rightarrow> bool \<Rightarrow> jvalue step" where
  "fetch_target_ip rich net cl ip_address use_current_ip =
     (let target_ip = (case ip_address of None \<Rightarrow> JNull | Some s \<Rightarrow> JStr s)
      in if use_current_ip then
           and_then (console_print rich (Text ''[cyan]Fetching current public IP...[/cyan]''))
             (\<lambda>_. and_then (call_get_my_ip net cl)
               (\<lambda>ip_result.
                  and_then (console_print rich
                              (Text (''[cyan]Current IP:[/cyan] '' @ py_str (ip ip_result))))
                    (\<lambda>_. return (ip ip_result))))
         else return target_ip)"

text \<open>The rest of the \<^verbatim>\<open>with\<close> block: the check of the target, the update, the display.\<close>

definition update_and_display ::
  "renderer \<Rightarrow> network \<Rightarrow> client \<Rightarrow> string \<Rightarrow> jvalue \<Rightarrow> unit step" where
  "update_and_display rich net cl domain target_ip =
     (if \<not> truthy target_ip then
        and_then (err_print rich ''[red]Error:[/red] No IP address available'')
          (\<lambda>_. raise (Exit 1))
      else
        and_then (console_print rich
                    (Text (''[cyan]Updating DNS record for '' @ domain @ ''...[/cyan]'')))
          (\<lambda>_. and_then (call_update_dns net cl domain target_ip)
            (\<lambda>result.
               and_then (console_print rich
                           (Text (''[green]Success![/green] '' @ py_str (message result))))
                 (\<lambda>_. if truthy (change_info result) then
                         and_then (console_print rich
                                     (Text (CHR 0x0A # ''[cyan]Change Info:[/cyan]'')))
                           (\<lambda>_. case items (change_info result) of
                                   Inl e \<Rightarrow> raise e
                                 | Inr kvs \<Rightarrow>
                                     console_print rich
                                       (Table (map (\<lambda>(key, value). (key, py_str value)) kvs)))
                       else return ()))))"

text \<open>The body of the \<^verbatim>\<open>try\<close> statement: the client is built, then used.\<close>

definition dns_update_try ::
  "renderer \<Rightarrow> (string \<Rightarrow> pyfloat option) \<Rightarrow> environ \<Rightarrow> State \<Rightarrow> network \<Rightarrow> string
     \<Rightarrow> string option \<Rightarrow> bool \<Rightarrow> unit step" where
  "dns_update_try rich to_float env state net domain ip_address use_current_ip =
     (let config = load_config to_float env (state_base_url state) (state_token state) None
      in case JscomApiClient (base_url config) (auth_token config) (timeout config) of
           Inl e \<Rightarrow> raise e
         | Inr cl \<Rightarrow>
             and_then (fetch_target_ip rich net cl ip_address use_current_ip)
               (\<lambda>target_ip. update_and_display rich net cl domain target_ip))"

text \<open>
  The \<^verbatim>\<open>except\<close> clauses in their order: the line that the clause prints on the error
  console and the code of the \<^verbatim>\<open>typer.Exit\<close> that it raises afterwards. The last clause
  catches every \<^verbatim>\<open>Exception\<close>, the \<^verbatim>\<open>typer.Exit\<close> and the \<^verbatim>\<open>MarkupError\<close> raised inside the
  \<^verbatim>\<open>try\<close> included.
\<close>

definition dns_update_except :: "exn \<Rightarrow> string \<times> int" where
  "dns_update_except e =
     (case e of
        AuthenticationError m \<Rightarrow>
          (''[red]Authentication failed:[/red] '' @ m @ [CHR 0x0A]
             @ ''[yellow]Hint:[/yellow] Set JSCOM_API_TOKEN env var or use --token option'', 2)
      | ValidationError m \<Rightarrow> (''[red]Validation error:[/red] '' @ m, 1)
      | NetworkError m \<Rightarrow> (''[red]Network error:[/red] '' @ m, 1)
      | ServerError m \<Rightarrow> (''[red]Server error:[/red] '' @ m, 1)
      | JscomApiError m \<Rightarrow> (''[red]API error:[/red] '' @ m, 1)
      | _ \<Rightarrow> (''[red]Unexpected error:[/red] '' @ exn_str e, 1))"

text \<open>
  The command. It returns, or an exception leaves it: the \<^verbatim>\<open>typer.Exit\<close> that the
  validation or an \<^verbatim>\<open>except\<close> clause raises after its line is printed, or the
  \<^verbatim>\<open>MarkupError\<close> of that line, which nothing catches.
\<close>

definition dns_update ::
  "renderer \<Rightarrow> (string \<Rightarrow> pyfloat option) \<Rightarrow> environ \<Rightarrow> State \<Rightarrow> network \<Rightarrow> string
     \<Rightarrow> string option \<Rightarrow> bool \<Rightarrow> unit step" where
  "dns_update rich to_float env state net domain ip_address use_current_ip =
     (if truthy_str ip_address \<and> use_current_ip then
        and_then
          (err_print rich
             (''[red]Error:[/red] --ip and --use-current-ip are mutually exclusive. ''
              @ ''Provide one or the other.''))
          (\<lambda>_. raise (Exit 1))
      else if \<not> truthy_str ip_address \<and> \<not> use_current_ip then
        and_then
          (err_print rich ''[red]Error:[/red] Either --ip or --use-current-ip must be provided.'')
          (\<lambda>_. raise (Exit 1))
      else
        (\<lambda>w. case dns_update_try rich to_float env state net domain ip_address use_current_ip w of
               (Inr u, w') \<Rightarrow> (Inr (), w')
             | (Inl e, w') \<Rightarrow>
                 and_then (err_print rich (fst (dns_update_except e)))
                   (\<lambda>_. raise (Exit (snd (dns_update_except e)))) w'))"

text \<open>
  The exit code of the process: 0 when the command returns, the code of a \<^verbatim>\<open>typer.Exit\<close>,
  and 1 when any other exception leaves the command and ends the interpreter.
\<close>

definition exit_code :: "exn + unit \<Rightarrow> int" where
  "exit_code r = (case r of Inr _ \<Rightarrow> 0 | Inl (Exit code) \<Rightarrow> code | Inl _ \<Rightarrow> 1)"

text \<open>The state of the outside before a command runs.\<close>

definition world0 :: world where
  "world0 = \<lparr>sent = [], console = [], err_console = []\<rparr>"

section \<open>Reference definitions and examples\<close>

text \<open>
  The reference definition of the timeout, in the words of the specification: an explicit
  timeout is used when positive and refused otherwise; without one, the environment
  variable is used when it parses as a positive number, and the default of 30 seconds
  in every other case.
\<close>

definition reference_timeout ::
  "(string \<Rightarrow> pyfloat option) \<Rightarrow> environ \<Rightarrow> pyfloat option \<Rightarrow> exn + pyfloat" where
  "reference_timeout to_float env timeout_arg =
     (case timeout_arg of
        Some t \<Rightarrow>
          if 0 < fval t then Inr t
          else Inl (ValueError (''timeout must be positive, got '' @ frepr t))
      | None \<Rightarrow>
          (case JSCOM_API_TIMEOUT env of
             None \<Rightarrow> Inr (timeout default_config)
           | Some env_timeout \<Rightarrow>
               (case to_float env_timeout of
                  None \<Rightarrow> Inr (timeout default_config)
                | Some t \<Rightarrow> if 0 < fval t then Inr t else Inr (timeout default_config))))"

text \<open>The timeout of the client that \<open>resolve\<close> builds, or the error of the construction.\<close>

definition timeout_of :: "exn + client \<Rightarrow> exn + pyfloat" where
  "timeout_of r = (case r of Inl e \<Rightarrow> Inl e | Inr cl \<Rightarrow> Inr (self_timeout cl))"

text \<open>The JSON values on which the error-body parser raises instead of returning.\<close>

definition parser_raises_on :: "jvalue \<Rightarrow> bool" where
  "parser_raises_on v =
     (case v of JObj _ \<Rightarrow> False | JArr xs \<Rightarrow> JStr ''error'' \<in> set xs
      | JStr s \<Rightarrow> substring ''error'' s | _ \<Rightarrow> True)"

text \<open>The four errors of \<^verbatim>\<open>exceptions.py\<close> that the client raises.\<close>

definition typed_error :: "exn \<Rightarrow> bool" where
  "typed_error e =
     (case e of AuthenticationError _ \<Rightarrow> True | ValidationError _ \<Rightarrow> True
      | ServerError _ \<Rightarrow> True | NetworkError _ \<Rightarrow> True | _ \<Rightarrow> False)"

text \<open>
  The examples below run the model on the fixtures of the repository's tests: the client
  of \<^verbatim>\<open>conftest.py\<close>, the clean environment of \<^verbatim>\<open>test_cli.py\<close>, and canned responses.
  \<open>float_examples\<close> gives the value of Python's \<^verbatim>\<open>float()\<close> on the four numerals that the
  examples use; \<^verbatim>\<open>float("abc")\<close> raises \<^verbatim>\<open>ValueError\<close>.
\<close>

definition float_examples :: "string \<Rightarrow> pyfloat option" where
  "float_examples =
     map_of [(''-5'', PyFloat (- 5) ''-5.0''), (''0'', PyFloat 0 ''0.0''),
             (''60'', PyFloat 60 ''60.0''), (''45.5'', PyFloat 45.5 ''45.5'')]"

definition clean_env :: environ where
  "clean_env = \<lparr>JSCOM_API_BASE_URL = None, JSCOM_API_TOKEN = None, JSCOM_API_TIMEOUT = None\<rparr>"

definition no_options :: State where
  "no_options = \<lparr>state_base_url = None, state_token = None\<rparr>"

definition test_client :: client where
  "test_client =
     \<lparr>self_base_url = ''https://api.test.com'', self_auth_token = Some ''test-token-12345'',
      self_timeout = PyFloat 10 ''10.0''\<rparr>"

definition override_env :: environ where
  "override_env =
     \<lparr>JSCOM_API_BASE_URL = Some ''https://env.example.com'', JSCOM_API_TOKEN = Some ''env-token'',
      JSCOM_API_TIMEOUT = Some ''60''\<rparr>"

definition client_no_auth :: client where
  "client_no_auth =
     \<lparr>self_base_url = ''https://api.test.com'', self_auth_token = None,
      self_timeout = PyFloat 10 ''10.0''\<rparr>"

text \<open>
  A network that answers every request alike, and the mock of the tests: it answers the
  GET and the POST of the two endpoints under a base URL, and refuses every other request.
\<close>

definition answers :: "response \<Rightarrow> network" where
  "answers r = (\<lambda>req. Inr r)"

definition mock_api :: "string \<Rightarrow> response \<Rightarrow> response \<Rightarrow> network" where
  "mock_api base g p =
     (\<lambda>req. if http_method req = ''GET'' \<and> url req = base @ ''/v1/ip/my'' then Inr g
            else if http_method req = ''POST'' \<and> url req = base @ ''/v1/dns/update'' then Inr p
            else Inl ''Connection refused'')"

definition ip_response :: response where
  \<open>ip_response =
     \<lparr>status_code = 200, body_text = ''{"ip": "203.0.113.42"}'',
      json = Inr (JObj [(''ip'', JStr ''203.0.113.42'')])\<rparr>\<close>

definition updated_response :: response where
  \<open>updated_response =
     \<lparr>status_code = 200,
      body_text = ''{"message": "DNS record updated successfully", "change_info": {"id": "C1234567890ABC", "status": "PENDING"}}'',
      json = Inr (JObj [(''message'', JStr ''DNS record updated successfully''),
                        (''change_info'', JObj [(''id'', JStr ''C1234567890ABC''),
                                                (''status'', JStr ''PENDING'')])])\<rparr>\<close>

definition forbidden_response :: response where
  \<open>forbidden_response =
     \<lparr>status_code = 403, body_text = ''{"error": "Forbidden", "message": "Invalid token"}'',
      json = Inr (JObj [(''error'', JStr ''Forbidden''), (''message'', JStr ''Invalid token'')])\<rparr>\<close>

definition html_response :: "int \<Rightarrow> response" where
  "html_response status =
     \<lparr>status_code = status, body_text = ''<html>Server Error</html>'',
      json = Inl ''Expecting value: line 1 column 1 (char 0)''\<rparr>"

definition null_response :: "int \<Rightarrow> response" where
  "null_response status = \<lparr>status_code = status, body_text = ''null'', json = Inr JNull\<rparr>"

definition list_response :: "int \<Rightarrow> response" where
  "list_response status = \<lparr>status_code = status, body_text = ''[]'', json = Inr (JArr [])\<rparr>"

definition markup_forbidden_response :: response where
  \<open>markup_forbidden_response =
     \<lparr>status_code = 403, body_text = ''{"error": "[/b]"}'',
      json = Inr (JObj [(''error'', JStr ''[/b]'')])\<rparr>\<close>

definition markup_ip_response :: response where
  \<open>markup_ip_response =
     \<lparr>status_code = 200, body_text = ''{"ip": "[/x]"}'',
      json = Inr (JObj [(''ip'', JStr ''[/x]'')])\<rparr>\<close>

text \<open>
  \<open>rich_examples\<close> gives the answer of the rendering library on the lines that the examples
  print: it renders them all but five, in which a closing tag \<^verbatim>\<open>[/b]\<close> or \<^verbatim>\<open>[/x]\<close> that
  comes from the server or from the user matches no open tag. Two of the five are the
  lines that report the \<^verbatim>\<open>MarkupError\<close> of another and repeat its tag.
\<close>

definition rich_examples :: renderer where
  "rich_examples =
     map_of
       [(Text (''[red]Authentication failed:[/red] Authentication failed: [/b]'' @ [CHR 0x0A]
               @ ''[yellow]Hint:[/yellow] Set JSCOM_API_TOKEN env var or use --token option''),
         ''closing tag '[/b]' at position 57 doesn't match any open tag''),
        (Text ''[cyan]Updating DNS record for [/x]...[/cyan]'',
         ''closing tag '[/x]' at position 30 doesn't match any open tag''),
        (Text (''[red]Unexpected error:[/red] ''
               @ ''closing tag '[/x]' at position 30 doesn't match any open tag''),
         ''closing tag '[/x]' at position 42 doesn't match any open tag''),
        (Text ''[cyan]Current IP:[/cyan] [/x]'',
         ''closing tag '[/x]' at position 25 doesn't match any open tag''),
        (Text (''[red]Unexpected error:[/red] ''
               @ ''closing tag '[/x]' at position 25 doesn't match any open tag''),
         ''closing tag '[/x]' at position 42 doesn't match any open tag'')]"

section \<open>The error-body parser: what it returns and when it raises\<close>

lemma parse_error_response_unparseable:
  "json r = Inl m \<Longrightarrow>
   parse_error_response r =
     Inr (if body_text r \<noteq> [] then body_text r else ''HTTP '' @ str_int (status_code r))"
  by (simp add: parse_error_response_def)

lemma parse_error_response_object:
  "json r = Inr (JObj kvs) \<Longrightarrow>
   parse_error_response r =
     Inr (case map_of kvs ''error'' of
            None \<Rightarrow> py_str (JObj kvs)
          | Some e \<Rightarrow> (case map_of kvs ''message'' of
                         None \<Rightarrow> py_str e
                       | Some m \<Rightarrow> py_str e @ '': '' @ py_str m))"
  by (auto simp: parse_error_response_def contains_def getitem_def split: option.splits)

lemma parse_error_response_returns:
  "json r = Inl m \<or> (\<exists>kvs. json r = Inr (JObj kvs)) \<Longrightarrow> \<exists>d. parse_error_response r = Inr d"
  using parse_error_response_unparseable parse_error_response_object by blast

text \<open>
  On a body that parses to something other than an object the parser returns only if the
  value is a list or a string without \<^verbatim>\<open>"error"\<close> in it. Otherwise a \<^verbatim>\<open>TypeError\<close>
  leaves the function.
\<close>

lemma parse_error_response_raises:
  "(\<exists>x. parse_error_response r = Inl x) \<longleftrightarrow> (\<exists>v. json r = Inr v \<and> parser_raises_on v)"
  by (cases "json r"; cases "projr (json r)")
     (auto simp: parse_error_response_def contains_def getitem_def parser_raises_on_def
           split: option.splits bool.splits sum.splits)

lemma parse_error_response_TypeError:
  "parse_error_response r = Inl x \<Longrightarrow> \<exists>m. x = TypeError m"
  by (cases "json r"; cases "projr (json r)")
     (auto simp: parse_error_response_def contains_def getitem_def
           split: option.splits bool.splits sum.splits if_splits)

text \<open>
  Claim C2 says that the parser returns a string on every response and never raises, also
  when the body parses to a number, a list or \<^verbatim>\<open>null\<close>. On a response of status 500 with
  the body \<^verbatim>\<open>null\<close> the membership test \<^verbatim>\<open>"error" in None\<close> raises a \<^verbatim>\<open>TypeError\<close>,
  which the \<^verbatim>\<open>except ValueError\<close> clause does not catch.
\<close>

theorem parse_error_response_null_body:
  "parse_error_response (null_response 500) =
     Inl (TypeError ''argument of type 'NoneType' is not iterable'')"
  by (simp add: parse_error_response_def contains_def type_name_def null_response_def)

section \<open>The status ladder of the two operations\<close>

lemma update_dns_outcome_transport:
  "update_dns_outcome (Inl m) = Inl (NetworkError (''Failed to connect to API: '' @ m))"
  by (simp add: update_dns_outcome_def)

lemma get_my_ip_outcome_transport:
  "get_my_ip_outcome (Inl m) = Inl (NetworkError (''Failed to connect to API: '' @ m))"
  by (simp add: get_my_ip_outcome_def)

text \<open>Whenever the parser returns, the status alone picks the error, in the order of the rungs.\<close>

lemma update_dns_outcome_ladder:
  "parse_error_response r = Inr d \<Longrightarrow> status_code r \<noteq> 200 \<Longrightarrow>
   update_dns_outcome (Inr r) =
     Inl (if status_code r = 403 then AuthenticationError (''Authentication failed: '' @ d)
          else if status_code r = 400 then ValidationError (''Validation error: '' @ d)
          else if status_code r \<ge> 500 then ServerError (''Server error: '' @ d)
          else NetworkError (''Unexpected status '' @ str_int (status_code r) @ '': '' @ d))"
  by (simp add: update_dns_outcome_def)

lemma get_my_ip_outcome_ladder:
  "parse_error_response r = Inr d \<Longrightarrow> status_code r \<noteq> 200 \<Longrightarrow>
   get_my_ip_outcome (Inr r) =
     Inl (if status_code r \<ge> 500 then ServerError (''Server error: '' @ d)
          else NetworkError (''Unexpected status '' @ str_int (status_code r) @ '': '' @ d))"
  by (simp add: get_my_ip_outcome_def)

text \<open>Whenever the parser raises, its exception is what the operation raises.\<close>

lemma update_dns_outcome_raised_by_parser:
  "parse_error_response r = Inl x \<Longrightarrow> status_code r \<noteq> 200 \<Longrightarrow> update_dns_outcome (Inr r) = Inl x"
  by (simp add: update_dns_outcome_def)

lemma get_my_ip_outcome_raised_by_parser:
  "parse_error_response r = Inl x \<Longrightarrow> status_code r \<noteq> 200 \<Longrightarrow> get_my_ip_outcome (Inr r) = Inl x"
  by (simp add: get_my_ip_outcome_def)

text \<open>
  Claim C1 says that the status decides the error in the order of the ladder, and that a
  response of status 403 is an Authentication error whatever its body. The order of the
  rungs is as claimed (\<open>update_dns_outcome_ladder\<close>), but on a response of status 403 with
  the body \<^verbatim>\<open>null\<close> the \<^verbatim>\<open>TypeError\<close> of the error-body parser leaves \<^verbatim>\<open>update_dns\<close>
  before the Authentication error is built.
\<close>

theorem update_dns_403_null_body:
  "fst (update_dns (answers (null_response 403)) test_client ''mc.example.com.''
          (JStr ''203.0.113.42'') []) =
     Inl (TypeError ''argument of type 'NoneType' is not iterable'')"
  by (simp add: update_dns_def update_dns_outcome_def answers_def null_response_def
        parse_error_response_def contains_def type_name_def)

section \<open>The errors that reach the caller\<close>

lemma getitem_error: "getitem v k = Inl x \<Longrightarrow> x = KeyError k \<or> (\<exists>m. x = TypeError m)"
  by (cases v) (auto simp: getitem_def split: option.splits)

text \<open>An operation raises one of the four typed errors or a \<^verbatim>\<open>TypeError\<close>, and nothing else.\<close>

lemma get_my_ip_outcome_errors:
  "get_my_ip_outcome outcome = Inl e \<Longrightarrow> typed_error e \<or> (\<exists>m. e = TypeError m)"
  by (auto simp: get_my_ip_outcome_def typed_error_def
           split: sum.splits if_splits exn.splits
           dest: parse_error_response_TypeError getitem_error)

lemma update_dns_outcome_errors:
  "update_dns_outcome outcome = Inl e \<Longrightarrow> typed_error e \<or> (\<exists>m. e = TypeError m)"
  by (auto simp: update_dns_outcome_def typed_error_def
           split: sum.splits if_splits exn.splits
           dest: parse_error_response_TypeError getitem_error)

text \<open>
  When the body does not parse, or parses to an object, every failure is one of the four
  typed errors.
\<close>

lemma get_my_ip_outcome_typed:
  assumes "\<And>r. outcome = Inr r \<Longrightarrow> (\<exists>m. json r = Inl m) \<or> (\<exists>kvs. json r = Inr (JObj kvs))"
    and "get_my_ip_outcome outcome = Inl e"
  shows "typed_error e"
proof (cases outcome)
  case (Inl m)
  with assms(2) show ?thesis by (auto simp: get_my_ip_outcome_def typed_error_def)
next
  case (Inr r)
  from assms(1) [OF Inr] obtain d where d: "parse_error_response r = Inr d"
    using parse_error_response_returns by blast
  show ?thesis
  proof (cases "status_code r = 200")
    case True
    with assms Inr show ?thesis
      by (auto simp: get_my_ip_outcome_def typed_error_def getitem_def
               split: sum.splits option.splits)
  next
    case False
    with assms(2) Inr d show ?thesis
      by (auto simp: get_my_ip_outcome_ladder typed_error_def split: if_splits)
  qed
qed

lemma update_dns_outcome_typed:
  assumes "\<And>r. outcome = Inr r \<Longrightarrow> (\<exists>m. json r = Inl m) \<or> (\<exists>kvs. json r = Inr (JObj kvs))"
    and "update_dns_outcome outcome = Inl e"
  shows "typed_error e"
proof (cases outcome)
  case (Inl m)
  with assms(2) show ?thesis by (auto simp: update_dns_outcome_def typed_error_def)
next
  case (Inr r)
  from assms(1) [OF Inr] obtain d where d: "parse_error_response r = Inr d"
    using parse_error_response_returns by blast
  show ?thesis
  proof (cases "status_code r = 200")
    case True
    with assms Inr show ?thesis
      by (auto simp: update_dns_outcome_def typed_error_def getitem_def
               split: sum.splits option.splits)
  next
    case False
    with assms(2) Inr d show ?thesis
      by (auto simp: update_dns_outcome_ladder typed_error_def split: if_splits)
  qed
qed

text \<open>Only \<^verbatim>\<open>update_dns\<close> raises an Authentication error, and only on the status 403.\<close>

lemma update_dns_outcome_authentication:
  "update_dns_outcome outcome = Inl (AuthenticationError m) \<longleftrightarrow>
     (\<exists>r d. outcome = Inr r \<and> status_code r = 403 \<and> parse_error_response r = Inr d
            \<and> m = ''Authentication failed: '' @ d)"
  by (auto simp: update_dns_outcome_def split: sum.splits if_splits exn.splits
           dest: parse_error_response_TypeError getitem_error)

lemma get_my_ip_outcome_no_authentication:
  "get_my_ip_outcome outcome \<noteq> Inl (AuthenticationError m)"
  by (auto simp: get_my_ip_outcome_def split: sum.splits if_splits exn.splits
           dest: parse_error_response_TypeError getitem_error)

text \<open>
  Claim C6 says that every failure of the two operations reaches the caller as one of the
  four typed errors, also on a body that is valid JSON and no object. On a response of
  status 200 with the body \<^verbatim>\<open>[]\<close> the subscript \<^verbatim>\<open>data["ip"]\<close> raises a \<^verbatim>\<open>TypeError\<close>,
  which the \<^verbatim>\<open>except KeyError\<close> clause does not catch; on a response of status 404 with
  the body \<^verbatim>\<open>null\<close> the \<^verbatim>\<open>TypeError\<close> of the error-body parser leaves \<^verbatim>\<open>get_my_ip\<close>.
\<close>

theorem get_my_ip_untyped_errors:
  "fst (get_my_ip (answers (list_response 200)) test_client []) =
     Inl (TypeError ''list indices must be integers or slices, not str'')
   \<and> fst (get_my_ip (answers (null_response 404)) test_client []) =
     Inl (TypeError ''argument of type 'NoneType' is not iterable'')"
  by (simp add: get_my_ip_def get_my_ip_outcome_def answers_def list_response_def null_response_def
        getitem_def parse_error_response_def contains_def type_name_def)

section \<open>Resolving the configuration\<close>

lemma rstrip_no_trailing: "rstrip c s \<noteq> u @ [c]"
proof
  assume "rstrip c s = u @ [c]"
  then have "dropWhile (\<lambda>x. x = c) (rev s) = c # rev u"
    by (metis rev.simps(2) rev_rev_ident rev_swap rstrip_def)
  then show False
    by (metis (full_types) hd_dropWhile list.sel(1) list.simps(3))
qed

lemma rstrip_replicate: "\<exists>n. s = rstrip c s @ replicate n c"
proof -
  let ?t = "takeWhile (\<lambda>x. x = c) (rev s)"
  have "rev s = ?t @ dropWhile (\<lambda>x. x = c) (rev s)"
    by simp
  moreover have "?t = replicate (length ?t) c"
    by (metis (mono_tags, lifting) replicate_length_same set_takeWhileD)
  ultimately have "rev s = replicate (length ?t) c @ dropWhile (\<lambda>x. x = c) (rev s)"
    by simp
  then have "s = rev (dropWhile (\<lambda>x. x = c) (rev s)) @ replicate (length ?t) c"
    by (metis rev_append rev_replicate rev_rev_ident)
  then show ?thesis unfolding rstrip_def by blast
qed

lemma rstrip_idempotent: "rstrip c (rstrip c s) = rstrip c s"
proof (cases "dropWhile (\<lambda>x. x = c) (rev s)")
  case Nil
  then show ?thesis by (simp add: rstrip_def)
next
  case (Cons y ys)
  then have "y \<noteq> c"
    by (metis (full_types) hd_dropWhile list.sel(1) list.simps(3))
  with Cons show ?thesis by (simp add: rstrip_def)
qed

lemma resolve_Inr:
  "resolve to_float env b a t = Inr cl \<longleftrightarrow>
     0 < fval (timeout (load_config to_float env b a t)) \<and>
     cl = \<lparr>self_base_url = rstrip CHR ''/'' (base_url (load_config to_float env b a t)),
           self_auth_token = auth_token (load_config to_float env b a t),
           self_timeout = timeout (load_config to_float env b a t)\<rparr>"
  by (auto simp: resolve_def JscomApiClient_def Let_def)

lemma resolve_Inl:
  "resolve to_float env b a t = Inl e \<longleftrightarrow>
     fval (timeout (load_config to_float env b a t)) \<le> 0 \<and>
     e = ValueError (''timeout must be positive, got ''
                       @ frepr (timeout (load_config to_float env b a t)))"
  by (auto simp: resolve_def JscomApiClient_def Let_def)

text \<open>
  Claim C3, as amended. The timeout of \<open>resolve\<close>: an explicit timeout is used when it is
  positive and refused with a \<^verbatim>\<open>ValueError\<close> when it is not. Without an explicit timeout,
  the default of 30 seconds is used when the environment variable is unset, empty or not
  accepted by \<^verbatim>\<open>float()\<close>; otherwise the number it denotes is used when positive and
  refused with the same \<^verbatim>\<open>ValueError\<close> when it is not. These are the only failures.
\<close>

theorem resolve_timeout:
  "(\<forall>v. t = Some v \<and> 0 < fval v \<longrightarrow> timeout_of (resolve to_float env b a t) = Inr v)
   \<and> (\<forall>v. t = Some v \<and> fval v \<le> 0 \<longrightarrow>
          timeout_of (resolve to_float env b a t) =
            Inl (ValueError (''timeout must be positive, got '' @ frepr v)))
   \<and> (t = None \<and> (JSCOM_API_TIMEOUT env = None \<or> JSCOM_API_TIMEOUT env = Some []
                    \<or> (\<exists>s. JSCOM_API_TIMEOUT env = Some s \<and> to_float s = None)) \<longrightarrow>
          timeout_of (resolve to_float env b a t) = Inr (PyFloat 30 ''30.0''))
   \<and> (\<forall>s v. t = None \<and> JSCOM_API_TIMEOUT env = Some s \<and> s \<noteq> [] \<and> to_float s = Some v
             \<and> 0 < fval v \<longrightarrow>
          timeout_of (resolve to_float env b a t) = Inr v)
   \<and> (\<forall>s v. t = None \<and> JSCOM_API_TIMEOUT env = Some s \<and> s \<noteq> [] \<and> to_float s = Some v
             \<and> fval v \<le> 0 \<longrightarrow>
          timeout_of (resolve to_float env b a t) =
            Inl (ValueError (''timeout must be positive, got '' @ frepr v)))"
  by (auto simp: timeout_of_def resolve_def JscomApiClient_def load_config_def default_config_def)

theorem resolve_timeout_witness:
  "timeout_of (resolve float_examples clean_env None None (Some (PyFloat 10 ''10.0''))) =
     Inr (PyFloat 10 ''10.0'')
   \<and> timeout_of (resolve float_examples clean_env None None (Some (PyFloat 0 ''0.0''))) =
     Inl (ValueError ''timeout must be positive, got 0.0'')
   \<and> timeout_of (resolve float_examples (clean_env\<lparr>JSCOM_API_TIMEOUT := Some ''abc''\<rparr>)
                   None None None) =
     Inr (PyFloat 30 ''30.0'')
   \<and> timeout_of (resolve float_examples override_env None None None) = Inr (PyFloat 60 ''60.0'')
   \<and> timeout_of (resolve float_examples (clean_env\<lparr>JSCOM_API_TIMEOUT := Some ''0''\<rparr>)
                   None None None) =
     Inl (ValueError ''timeout must be positive, got 0.0'')"
  using resolve_timeout [where to_float = float_examples and env = clean_env
                           and t = "Some (PyFloat 10 ''10.0'')"]
        resolve_timeout [where to_float = float_examples and env = clean_env
                           and t = "Some (PyFloat 0 ''0.0'')"]
        resolve_timeout [where to_float = float_examples and t = None
                           and env = "clean_env\<lparr>JSCOM_API_TIMEOUT := Some ''abc''\<rparr>"]
        resolve_timeout [where to_float = float_examples and t = None and env = override_env]
        resolve_timeout [where to_float = float_examples and t = None
                           and env = "clean_env\<lparr>JSCOM_API_TIMEOUT := Some ''0''\<rparr>"]
  by (simp add: float_examples_def clean_env_def override_env_def)

text \<open>
  Claim C3 as it is written takes the default for every value of the environment variable
  that is not a positive number, and lets \<open>resolve\<close> fail on an explicit timeout only. With
  \<^verbatim>\<open>JSCOM_API_TIMEOUT=-5\<close> and no explicit timeout, \<^verbatim>\<open>float("-5")\<close> succeeds, \<^verbatim>\<open>load_config\<close>
  keeps the value and the constructor refuses it, where the reference definition gives
  30 seconds.
\<close>

theorem resolve_env_timeout_counterexample:
  "timeout_of (resolve float_examples (clean_env\<lparr>JSCOM_API_TIMEOUT := Some ''-5''\<rparr>)
                 None None None) =
     Inl (ValueError ''timeout must be positive, got -5.0'')
   \<and> reference_timeout float_examples (clean_env\<lparr>JSCOM_API_TIMEOUT := Some ''-5''\<rparr>) None =
     Inr (PyFloat 30 ''30.0'')
   \<and> timeout_of (resolve float_examples (clean_env\<lparr>JSCOM_API_TIMEOUT := Some ''-5''\<rparr>)
                   None None None) \<noteq>
     reference_timeout float_examples (clean_env\<lparr>JSCOM_API_TIMEOUT := Some ''-5''\<rparr>) None"
  by (simp add: timeout_of_def resolve_def JscomApiClient_def load_config_def default_config_def
        reference_timeout_def float_examples_def clean_env_def)

text \<open>
  Claim C4, as amended. Each field is chosen on its own. Base URL: the explicit argument
  when it is given and not empty, else the environment variable when it is set and not
  empty, else the literal default. Token: the explicit argument when it is given and not
  empty, else whatever the environment holds (absent when the variable is unset). Timeout:
  the explicit argument whenever one is given, else the environment variable when it is
  set, not empty and accepted by \<^verbatim>\<open>float()\<close>, else 30 seconds. The client that \<open>resolve\<close>
  builds has these fields, the base URL without its trailing slashes.
\<close>

theorem resolve_precedence:
  assumes "cfg = load_config to_float env b a t"
  shows "(truthy_str b \<longrightarrow> b = Some (base_url cfg))
   \<and> (\<not> truthy_str b \<and> truthy_str (JSCOM_API_BASE_URL env) \<longrightarrow>
          JSCOM_API_BASE_URL env = Some (base_url cfg))
   \<and> (\<not> truthy_str b \<and> \<not> truthy_str (JSCOM_API_BASE_URL env) \<longrightarrow>
          base_url cfg = ''https://api.johnsosoka.com'')
   \<and> (truthy_str a \<longrightarrow> auth_token cfg = a)
   \<and> (\<not> truthy_str a \<longrightarrow> auth_token cfg = JSCOM_API_TOKEN env)
   \<and> (\<forall>v. t = Some v \<longrightarrow> timeout cfg = v)
   \<and> (\<forall>s v. t = None \<and> JSCOM_API_TIMEOUT env = Some s \<and> s \<noteq> [] \<and> to_float s = Some v \<longrightarrow>
          timeout cfg = v)
   \<and> (t = None \<and> (JSCOM_API_TIMEOUT env = None \<or> JSCOM_API_TIMEOUT env = Some []
                    \<or> (\<exists>s. JSCOM_API_TIMEOUT env = Some s \<and> to_float s = None)) \<longrightarrow>
          timeout cfg = PyFloat 30 ''30.0'')
   \<and> (\<forall>cl. resolve to_float env b a t = Inr cl \<longrightarrow>
          self_base_url cl = rstrip CHR ''/'' (base_url cfg)
          \<and> self_auth_token cl = auth_token cfg \<and> self_timeout cl = timeout cfg)"
proof -
  have "\<forall>cl. resolve to_float env b a t = Inr cl \<longrightarrow>
          self_base_url cl = rstrip CHR ''/'' (base_url cfg)
          \<and> self_auth_token cl = auth_token cfg \<and> self_timeout cl = timeout cfg"
    using assms by (simp add: resolve_Inr)
  moreover have "(truthy_str b \<longrightarrow> b = Some (base_url cfg))
   \<and> (\<not> truthy_str b \<and> truthy_str (JSCOM_API_BASE_URL env) \<longrightarrow>
          JSCOM_API_BASE_URL env = Some (base_url cfg))
   \<and> (\<not> truthy_str b \<and> \<not> truthy_str (JSCOM_API_BASE_URL env) \<longrightarrow>
          base_url cfg = ''https://api.johnsosoka.com'')
   \<and> (truthy_str a \<longrightarrow> auth_token cfg = a)
   \<and> (\<not> truthy_str a \<longrightarrow> auth_token cfg = JSCOM_API_TOKEN env)"
    using assms
    by (auto simp: load_config_def default_config_def or_str_def or_opt_def truthy_str_def
             split: option.splits)
  moreover have "(\<forall>v. t = Some v \<longrightarrow> timeout cfg = v)
   \<and> (\<forall>s v. t = None \<and> JSCOM_API_TIMEOUT env = Some s \<and> s \<noteq> [] \<and> to_float s = Some v \<longrightarrow>
          timeout cfg = v)
   \<and> (t = None \<and> (JSCOM_API_TIMEOUT env = None \<or> JSCOM_API_TIMEOUT env = Some []
                    \<or> (\<exists>s. JSCOM_API_TIMEOUT env = Some s \<and> to_float s = None)) \<longrightarrow>
          timeout cfg = PyFloat 30 ''30.0'')"
    using assms by (auto simp: load_config_def default_config_def)
  ultimately show ?thesis by blast
qed

theorem resolve_precedence_witness:
  "resolve float_examples override_env (Some ''https://custom.api.com/'') (Some ''custom-token'')
     (Some (PyFloat 10 ''10.0'')) =
     Inr \<lparr>self_base_url = ''https://custom.api.com'', self_auth_token = Some ''custom-token'',
          self_timeout = PyFloat 10 ''10.0''\<rparr>
   \<and> base_url (load_config float_examples override_env None None None) = ''https://env.example.com''
   \<and> auth_token (load_config float_examples override_env None None None) = Some ''env-token''
   \<and> timeout (load_config float_examples override_env None None None) = PyFloat 60 ''60.0''
   \<and> base_url (load_config float_examples clean_env None None None) = ''https://api.johnsosoka.com''
   \<and> auth_token (load_config float_examples clean_env None None None) = None
   \<and> timeout (load_config float_examples clean_env None None None) = PyFloat 30 ''30.0''"
proof -
  have r: "resolve float_examples override_env (Some ''https://custom.api.com/'')
             (Some ''custom-token'') (Some (PyFloat 10 ''10.0'')) =
     Inr \<lparr>self_base_url = ''https://custom.api.com'', self_auth_token = Some ''custom-token'',
          self_timeout = PyFloat 10 ''10.0''\<rparr>"
    by (simp add: resolve_def load_config_def JscomApiClient_def rstrip_def or_str_def or_opt_def
          truthy_str_def)
  show ?thesis
    using r
      resolve_precedence [OF refl, where to_float = float_examples and env = override_env
        and b = None and a = None and t = None]
      resolve_precedence [OF refl, where to_float = float_examples and env = clean_env
        and b = None and a = None and t = None]
    by (simp add: float_examples_def clean_env_def override_env_def truthy_str_def)
qed

text \<open>
  Claim C4 as it is written lets every explicit argument override the environment, and
  every set environment variable override the default. With \<^verbatim>\<open>--base-url ""\<close> the
  environment's base URL is used, because \<^verbatim>\<open>base_url or os.getenv(...)\<close> tests the
  argument for truth; with \<^verbatim>\<open>JSCOM_API_TIMEOUT=abc\<close> the default of 30 seconds is used
  although the variable is set.
\<close>

theorem resolve_precedence_counterexample:
  "resolve float_examples
     (clean_env\<lparr>JSCOM_API_BASE_URL := Some ''https://env.example.com'',
                JSCOM_API_TIMEOUT := Some ''abc''\<rparr>)
     (Some []) None None =
     Inr \<lparr>self_base_url = ''https://env.example.com'', self_auth_token = None,
          self_timeout = PyFloat 30 ''30.0''\<rparr>"
  by (simp add: resolve_def load_config_def JscomApiClient_def rstrip_def default_config_def
        or_str_def or_opt_def truthy_str_def float_examples_def clean_env_def)

text \<open>
  Claim C5. Whatever the explicit argument and the environment are, the base URL of the
  client that \<open>resolve\<close> builds does not end in a slash, and it is the chosen base URL with
  nothing but slashes taken from its end. (The \<^verbatim>\<open>Config\<close> that \<^verbatim>\<open>load_config\<close> returns in
  between still has them: the constructor of the client strips them.)
\<close>

theorem resolve_base_url_stripped:
  assumes "resolve to_float env b a t = Inr cl"
  shows "(\<forall>u. self_base_url cl \<noteq> u @ ''/'')
         \<and> (\<exists>n. base_url (load_config to_float env b a t) =
                  self_base_url cl @ replicate n CHR ''/'')"
  using assms rstrip_no_trailing rstrip_replicate by (simp add: resolve_Inr)

theorem resolve_base_url_stripped_witness:
  "resolve float_examples clean_env (Some ''https://api.test.com///'') None None =
     Inr \<lparr>self_base_url = ''https://api.test.com'', self_auth_token = None,
          self_timeout = PyFloat 30 ''30.0''\<rparr>
   \<and> (\<forall>u. ''https://api.test.com'' \<noteq> u @ ''/'')
   \<and> (\<exists>n. ''https://api.test.com///'' = ''https://api.test.com'' @ replicate n CHR ''/'')"
proof -
  have r: "resolve float_examples clean_env (Some ''https://api.test.com///'') None None =
     Inr \<lparr>self_base_url = ''https://api.test.com'', self_auth_token = None,
          self_timeout = PyFloat 30 ''30.0''\<rparr>"
    by (simp add: resolve_def load_config_def JscomApiClient_def rstrip_def default_config_def
          or_str_def or_opt_def truthy_str_def clean_env_def)
  have b: "base_url (load_config float_examples clean_env (Some ''https://api.test.com///'')
                       None None) = ''https://api.test.com///''"
    by (simp add: load_config_def or_str_def or_opt_def truthy_str_def)
  show ?thesis
    using resolve_base_url_stripped [OF r] r b by simp
qed

section \<open>The request of \<^verbatim>\<open>update_dns\<close>\<close>

text \<open>
  Claim C8. For every domain and address, \<^verbatim>\<open>update_dns\<close> issues one request: a POST to
  the base URL followed by \<^verbatim>\<open>/v1/dns/update\<close>, whose JSON body is the object with the two
  keys \<^verbatim>\<open>domain\<close> and \<^verbatim>\<open>ip\<close> and nothing else, under the client's timeout, with the
  header \<^verbatim>\<open>Content-Type: application/json\<close>. This request is what the network receives:
  the result of \<^verbatim>\<open>update_dns\<close> is made of the network's answer to it. The header
  \<^verbatim>\<open>x-auth-token\<close> is present exactly when the client has a token that is not empty, and
  then carries that token; without such a token \<^verbatim>\<open>Content-Type\<close> is the only header.
\<close>

theorem update_dns_request_sent:
  "fst (update_dns net self domain ip_arg sent_before) =
     update_dns_outcome (net (update_dns_request self domain ip_arg))
   \<and> snd (update_dns net self domain ip_arg sent_before) =
     sent_before @ [update_dns_request self domain ip_arg]
   \<and> http_method (update_dns_request self domain ip_arg) = ''POST''
   \<and> url (update_dns_request self domain ip_arg) = self_base_url self @ ''/v1/dns/update''
   \<and> json_arg (update_dns_request self domain ip_arg) =
       Some (JObj [(''domain'', JStr domain), (''ip'', ip_arg)])
   \<and> request_timeout (update_dns_request self domain ip_arg) = self_timeout self
   \<and> map_of (headers (update_dns_request self domain ip_arg)) ''Content-Type'' =
       Some ''application/json''
   \<and> (\<forall>token. map_of (headers (update_dns_request self domain ip_arg)) ''x-auth-token'' = Some token
         \<longleftrightarrow> self_auth_token self = Some token \<and> token \<noteq> [])
   \<and> map fst (headers (update_dns_request self domain ip_arg)) =
       (if truthy_str (self_auth_token self) then [''Content-Type'', ''x-auth-token'']
        else [''Content-Type''])"
  by (auto simp: update_dns_def update_dns_request_def Let_def truthy_str_def split: option.splits)

theorem update_dns_request_sent_witness:
  "fst (update_dns (mock_api ''https://api.test.com'' ip_response updated_response) test_client
          ''mc.example.com.'' (JStr ''203.0.113.42'') []) =
     Inr \<lparr>message = JStr ''DNS record updated successfully'',
          change_info = JObj [(''id'', JStr ''C1234567890ABC''), (''status'', JStr ''PENDING'')]\<rparr>
   \<and> snd (update_dns (mock_api ''https://api.test.com'' ip_response updated_response) test_client
          ''mc.example.com.'' (JStr ''203.0.113.42'') []) =
     [\<lparr>http_method = ''POST'', url = ''https://api.test.com/v1/dns/update'',
       headers = [(''Content-Type'', ''application/json''), (''x-auth-token'', ''test-token-12345'')],
       json_arg = Some (JObj [(''domain'', JStr ''mc.example.com.''), (''ip'', JStr ''203.0.113.42'')]),
       request_timeout = PyFloat 10 ''10.0''\<rparr>]
   \<and> map fst (headers (update_dns_request client_no_auth ''mc.example.com.'' (JStr ''203.0.113.42''))) =
       [''Content-Type'']
   \<and> map_of (headers (update_dns_request client_no_auth ''mc.example.com.'' (JStr ''203.0.113.42'')))
        ''x-auth-token'' = None"
  using update_dns_request_sent [of "mock_api ''https://api.test.com'' ip_response updated_response"
          test_client "''mc.example.com.''" "JStr ''203.0.113.42''" "[]"]
  by (simp add: update_dns_request_def test_client_def client_no_auth_def mock_api_def
        updated_response_def update_dns_outcome_def getitem_def)

section \<open>The command: validation, requests and exit codes\<close>

lemma console_print_renders:
  "rich x = None \<Longrightarrow> console_print rich x w = (Inr (), w\<lparr>console := console w @ [x]\<rparr>)"
  by (simp add: console_print_def)

lemma console_print_fails:
  "rich x = Some m \<Longrightarrow> console_print rich x w = (Inl (MarkupError m), w)"
  by (simp add: console_print_def)

lemma err_print_renders:
  "rich (Text x) = None \<Longrightarrow>
   err_print rich x w = (Inr (), w\<lparr>err_console := err_console w @ [x]\<rparr>)"
  by (simp add: err_print_def)

lemma err_print_fails:
  "rich (Text x) = Some m \<Longrightarrow> err_print rich x w = (Inl (MarkupError m), w)"
  by (simp add: err_print_def)

lemma sent_console_print [simp]: "sent (snd (console_print rich x w)) = sent w"
  by (simp add: console_print_def split: option.splits)

lemma sent_err_print [simp]: "sent (snd (err_print rich x w)) = sent w"
  by (simp add: err_print_def split: option.splits)

lemma err_console_console_print [simp]:
  "err_console (snd (console_print rich x w)) = err_console w"
  by (simp add: console_print_def split: option.splits)

lemma err_console_err_print:
  "err_console (snd (err_print rich x w)) =
     err_console w @ (if rich (Text x) = None then [x] else [])"
  by (simp add: err_print_def split: option.splits)

text \<open>The requests of the first step: the GET, once its announcement is printed.\<close>

lemma fetch_target_ip_sent:
  "sent (snd (fetch_target_ip rich net cl ip_address use_current_ip w)) =
     sent w @ (if use_current_ip \<and> rich (Text ''[cyan]Fetching current public IP...[/cyan]'') = None
               then [get_my_ip_request cl] else [])"
  by (auto simp: fetch_target_ip_def and_then_def return_def console_print_def call_get_my_ip_def
        get_my_ip_def Let_def split: option.splits sum.splits prod.splits)

lemma fetch_target_ip_err_console:
  "err_console (snd (fetch_target_ip rich net cl ip_address use_current_ip w)) = err_console w"
  by (auto simp: fetch_target_ip_def and_then_def return_def console_print_def call_get_my_ip_def
        get_my_ip_def Let_def split: option.splits sum.splits prod.splits)

lemma fetch_target_ip_explicit:
  "fetch_target_ip rich net cl ip_address False w =
     (Inr (case ip_address of None \<Rightarrow> JNull | Some s \<Rightarrow> JStr s), w)"
  by (simp add: fetch_target_ip_def return_def)

lemma fetch_target_ip_ignores_ip:
  "fetch_target_ip rich net cl ip_address True = fetch_target_ip rich net cl None True"
  by (simp add: fetch_target_ip_def)

text \<open>Under \<^verbatim>\<open>--use-current-ip\<close> a target is never anything but the address fetched.\<close>

lemma fetch_target_ip_fetched:
  "fetch_target_ip rich net cl ip_address True w = (Inr t, w') \<Longrightarrow>
   \<exists>r. get_my_ip_outcome (net (get_my_ip_request cl)) = Inr r \<and> ip r = t"
  by (auto simp: fetch_target_ip_def and_then_def return_def console_print_def call_get_my_ip_def
        get_my_ip_def Let_def split: option.splits sum.splits prod.splits)

lemma fetch_target_ip_rendered:
  "rich (Text ''[cyan]Fetching current public IP...[/cyan]'') = None \<Longrightarrow>
   get_my_ip_outcome (net (get_my_ip_request cl)) = Inr r \<Longrightarrow>
   rich (Text (''[cyan]Current IP:[/cyan] '' @ py_str (ip r))) = None \<Longrightarrow>
   fst (fetch_target_ip rich net cl ip_address True w) = Inr (ip r)"
  by (simp add: fetch_target_ip_def and_then_def return_def console_print_def call_get_my_ip_def
        get_my_ip_def Let_def)

text \<open>The requests of the second step: the POST, once its announcement is printed.\<close>

lemma update_and_display_sent:
  "sent (snd (update_and_display rich net cl domain target_ip w)) =
     sent w @ (if truthy target_ip
                  \<and> rich (Text (''[cyan]Updating DNS record for '' @ domain @ ''...[/cyan]'')) = None
               then [update_dns_request cl domain target_ip] else [])"
  by (auto simp: update_and_display_def and_then_def return_def raise_def console_print_def
        err_print_def call_update_dns_def update_dns_def Let_def
        split: option.splits sum.splits prod.splits)

lemma update_and_display_err_console:
  "err_console (snd (update_and_display rich net cl domain target_ip w)) = err_console w
   \<or> err_console (snd (update_and_display rich net cl domain target_ip w)) =
       err_console w @ [''[red]Error:[/red] No IP address available'']"
  by (auto simp: update_and_display_def and_then_def return_def raise_def console_print_def
        err_print_def call_update_dns_def update_dns_def Let_def
        split: option.splits sum.splits prod.splits)

lemma dns_update_try_resolve:
  "dns_update_try rich to_float env st net domain ip_address use_current_ip =
     (case resolve to_float env (state_base_url st) (state_token st) None of
        Inl e \<Rightarrow> raise e
      | Inr cl \<Rightarrow>
          and_then (fetch_target_ip rich net cl ip_address use_current_ip)
            (\<lambda>target_ip. update_and_display rich net cl domain target_ip))"
  by (simp add: dns_update_try_def resolve_def Let_def)

text \<open>
  The requests of one run: the GET when \<^verbatim>\<open>--use-current-ip\<close> is given, then the POST when
  there is a target address, each after its announcement. A run issues at most these two.
\<close>

lemma dns_update_try_sent:
  assumes "resolve to_float env (state_base_url st) (state_token st) None = Inr cl"
  shows "sent (snd (dns_update_try rich to_float env st net domain ip_address use_current_ip w)) =
     sent w
       @ (if use_current_ip \<and> rich (Text ''[cyan]Fetching current public IP...[/cyan]'') = None
          then [get_my_ip_request cl] else [])
       @ (case fst (fetch_target_ip rich net cl ip_address use_current_ip w) of
            Inl e \<Rightarrow> []
          | Inr target_ip \<Rightarrow>
              if truthy target_ip
                 \<and> rich (Text (''[cyan]Updating DNS record for '' @ domain @ ''...[/cyan]'')) = None
              then [update_dns_request cl domain target_ip] else [])"
proof (cases "fetch_target_ip rich net cl ip_address use_current_ip w")
  case (Pair r w')
  have s: "sent w' =
      sent w @ (if use_current_ip \<and> rich (Text ''[cyan]Fetching current public IP...[/cyan]'') = None
                then [get_my_ip_request cl] else [])"
    using fetch_target_ip_sent [of rich net cl ip_address use_current_ip w] Pair by simp
  show ?thesis
    using assms Pair s
    by (cases r) (simp_all add: dns_update_try_resolve and_then_def update_and_display_sent)
qed

lemma dns_update_try_no_client:
  "resolve to_float env (state_base_url st) (state_token st) None = Inl e \<Longrightarrow>
   dns_update_try rich to_float env st net domain ip_address use_current_ip w = (Inl e, w)"
  by (simp add: dns_update_try_resolve raise_def)

lemma dns_update_try_err_console:
  "err_console (snd (dns_update_try rich to_float env st net domain ip_address use_current_ip w)) =
     err_console w
   \<or> err_console (snd (dns_update_try rich to_float env st net domain ip_address use_current_ip w)) =
       err_console w @ [''[red]Error:[/red] No IP address available'']"
proof (cases "resolve to_float env (state_base_url st) (state_token st) None")
  case (Inl e)
  then show ?thesis by (simp add: dns_update_try_resolve raise_def)
next
  case (Inr cl)
  show ?thesis
  proof (cases "fetch_target_ip rich net cl ip_address use_current_ip w")
    case (Pair r w')
    have e: "err_console w' = err_console w"
      using fetch_target_ip_err_console [of rich net cl ip_address use_current_ip w] Pair by simp
    show ?thesis
    proof (cases r)
      case (Inl x)
      with Inr Pair e show ?thesis by (simp add: dns_update_try_resolve and_then_def)
    next
      case (Inr t)
      with \<open>resolve to_float env (state_base_url st) (state_token st) None = Inr cl\<close> Pair e
        update_and_display_err_console [of rich net cl domain t w']
      show ?thesis by (simp add: dns_update_try_resolve and_then_def)
    qed
  qed
qed

lemma dns_update_sent_after_validation:
  "truthy_str ip_address \<noteq> use_current_ip \<Longrightarrow>
   sent (snd (dns_update rich to_float env st net domain ip_address use_current_ip w)) =
     sent (snd (dns_update_try rich to_float env st net domain ip_address use_current_ip w))"
  by (auto simp: dns_update_def and_then_def raise_def err_print_def
           split: prod.splits sum.splits option.splits)

lemma dns_update_except_message:
  "fst (dns_update_except e) \<noteq>
     ''[red]Error:[/red] --ip and --use-current-ip are mutually exclusive. Provide one or the other.''"
  by (cases e) (simp_all add: dns_update_except_def)

subsection \<open>Exit codes\<close>

text \<open>
  The exit code when the options pass the validation: 0 when the body of the \<^verbatim>\<open>try\<close>
  statement completes; when it raises, the code of the \<^verbatim>\<open>except\<close> clause if the line of
  the clause is printed, and 1 through the uncaught \<^verbatim>\<open>MarkupError\<close> if it is not.
\<close>

lemma dns_update_completes:
  "truthy_str ip_address \<noteq> use_current_ip \<Longrightarrow>
   dns_update_try rich to_float env st net domain ip_address use_current_ip w = (Inr u, w') \<Longrightarrow>
   dns_update rich to_float env st net domain ip_address use_current_ip w = (Inr (), w')"
  by (auto simp: dns_update_def)

lemma dns_update_handled:
  "truthy_str ip_address \<noteq> use_current_ip \<Longrightarrow>
   dns_update_try rich to_float env st net domain ip_address use_current_ip w = (Inl e, w') \<Longrightarrow>
   rich (Text (fst (dns_update_except e))) = None \<Longrightarrow>
   dns_update rich to_float env st net domain ip_address use_current_ip w =
     (Inl (Exit (snd (dns_update_except e))),
      w'\<lparr>err_console := err_console w' @ [fst (dns_update_except e)]\<rparr>)"
  by (auto simp: dns_update_def and_then_def raise_def err_print_def)

lemma dns_update_handler_fails:
  "truthy_str ip_address \<noteq> use_current_ip \<Longrightarrow>
   dns_update_try rich to_float env st net domain ip_address use_current_ip w = (Inl e, w') \<Longrightarrow>
   rich (Text (fst (dns_update_except e))) = Some m \<Longrightarrow>
   dns_update rich to_float env st net domain ip_address use_current_ip w =
     (Inl (MarkupError m), w')"
  by (auto simp: dns_update_def and_then_def raise_def err_print_def)

lemma dns_update_except_code:
  "snd (dns_update_except e) = (case e of AuthenticationError _ \<Rightarrow> 2 | _ \<Rightarrow> 1)"
  by (cases e) (simp_all add: dns_update_except_def)

lemma dns_update_exit_code_handled:
  "truthy_str ip_address \<noteq> use_current_ip \<Longrightarrow>
   dns_update_try rich to_float env st net domain ip_address use_current_ip w = (Inl e, w') \<Longrightarrow>
   rich (Text (fst (dns_update_except e))) = None \<Longrightarrow>
   exit_code (fst (dns_update rich to_float env st net domain ip_address use_current_ip w)) =
     (case e of AuthenticationError _ \<Rightarrow> 2 | _ \<Rightarrow> 1)"
  by (simp add: dns_update_handled exit_code_def dns_update_except_code)

lemma dns_update_exit_code_invalid:
  "truthy_str ip_address = use_current_ip \<Longrightarrow>
   exit_code (fst (dns_update rich to_float env st net domain ip_address use_current_ip w)) = 1"
  by (auto simp: dns_update_def and_then_def raise_def err_print_def exit_code_def
           split: option.splits)

lemma dns_update_exit_codes:
  "exit_code (fst (dns_update rich to_float env st net domain ip_address use_current_ip w))
     \<in> {0, 1, 2}"
  by (auto simp: dns_update_def and_then_def raise_def err_print_def exit_code_def
        dns_update_except_code
      split: option.splits prod.splits sum.splits exn.splits)

text \<open>The exit code is 2 only after an Authentication error whose line was printed.\<close>

lemma dns_update_exit_code_2:
  "exit_code (fst (dns_update rich to_float env st net domain ip_address use_current_ip w)) = 2
   \<longleftrightarrow> truthy_str ip_address \<noteq> use_current_ip
       \<and> (\<exists>m w'. dns_update_try rich to_float env st net domain ip_address use_current_ip w =
                    (Inl (AuthenticationError m), w')
                  \<and> rich (Text (fst (dns_update_except (AuthenticationError m)))) = None)"
  by (auto simp: dns_update_def and_then_def raise_def err_print_def exit_code_def
        dns_update_except_code
      split: option.splits prod.splits sum.splits exn.splits)

lemmas run_defs =
  dns_update_def dns_update_try_def dns_update_except_def exit_code_def and_then_def raise_def
  return_def console_print_def err_print_def call_get_my_ip_def call_update_dns_def
  load_config_def JscomApiClient_def default_config_def or_str_def or_opt_def
  truthy_str_def rstrip_def fetch_target_ip_def update_and_display_def get_my_ip_def
  get_my_ip_request_def get_my_ip_outcome_def update_dns_def update_dns_request_def
  update_dns_outcome_def parse_error_response_def contains_def getitem_def items_def truthy_def
  py_str_def exn_str_def clean_env_def no_options_def world0_def answers_def mock_api_def
  ip_response_def updated_response_def forbidden_response_def markup_forbidden_response_def
  markup_ip_response_def html_response_def rich_examples_def

text \<open>
  The runs of the tests: exit code 2 on the 403 of \<^verbatim>\<open>test_authentication_error_display\<close>,
  1 on a server error, 0 on a successful update with the fetched address.
\<close>

lemma dns_update_exit_code_examples:
  "exit_code (fst (dns_update rich_examples float_examples clean_env no_options
      (answers forbidden_response) ''mc.example.com.'' (Some ''203.0.113.42'') False world0)) = 2
   \<and> exit_code (fst (dns_update rich_examples float_examples clean_env no_options
      (answers (html_response 500)) ''mc.example.com.'' (Some ''203.0.113.42'') False world0)) = 1
   \<and> exit_code (fst (dns_update rich_examples float_examples clean_env no_options
      (mock_api ''https://api.johnsosoka.com'' ip_response updated_response)
      ''mc.example.com.'' None True world0)) = 0"
  by (simp add: run_defs)

text \<open>
  Claim C7 says that the exit code is 2 for every Authentication error. The server's text
  goes into the line of the \<^verbatim>\<open>except\<close> clause as it is, and the error console reads the
  line as markup. On a response of status 403 with the body \<^verbatim>\<open>{"error": "[/b]"}\<close> the body
  of the \<^verbatim>\<open>try\<close> statement raises the Authentication error, the clause fails to print its
  line, the \<^verbatim>\<open>typer.Exit(code=2)\<close> after it is not reached, and the \<^verbatim>\<open>MarkupError\<close> ends the
  process with exit code 1.
\<close>

theorem dns_update_authentication_markup:
  "fst (dns_update_try rich_examples float_examples clean_env no_options
          (answers markup_forbidden_response) ''mc.example.com.'' (Some ''203.0.113.42'') False
          world0) =
     Inl (AuthenticationError ''Authentication failed: [/b]'')
   \<and> fst (dns_update rich_examples float_examples clean_env no_options
          (answers markup_forbidden_response) ''mc.example.com.'' (Some ''203.0.113.42'') False
          world0) =
     Inl (MarkupError ''closing tag '[/b]' at position 57 doesn't match any open tag'')
   \<and> exit_code (fst (dns_update rich_examples float_examples clean_env no_options
          (answers markup_forbidden_response) ''mc.example.com.'' (Some ''203.0.113.42'') False
          world0)) = 1"
  by (simp add: run_defs)

text \<open>
  The same happens to the lines of the console: with \<^verbatim>\<open>--domain "[/x]"\<close> the announcement
  of the update is not printed and the POST is never issued; the last \<^verbatim>\<open>except\<close> clause
  catches the \<^verbatim>\<open>MarkupError\<close> and fails in turn to print the line that reports it.
\<close>

lemma dns_update_domain_markup:
  "dns_update rich_examples float_examples clean_env no_options
     (mock_api ''https://api.johnsosoka.com'' ip_response updated_response)
     ''[/x]'' (Some ''203.0.113.42'') False world0 =
     (Inl (MarkupError ''closing tag '[/x]' at position 42 doesn't match any open tag''),
      \<lparr>sent = [], console = [], err_console = []\<rparr>)"
  by (simp add: run_defs)

text \<open>
  And with an address \<^verbatim>\<open>[/x]\<close> from the server the line that shows it is not printed:
  the run stops after the GET.
\<close>

lemma dns_update_fetched_markup:
  "dns_update rich_examples float_examples clean_env no_options
     (mock_api ''https://api.johnsosoka.com'' markup_ip_response updated_response)
     ''mc.example.com.'' None True world0 =
     (Inl (MarkupError ''closing tag '[/x]' at position 42 doesn't match any open tag''),
      \<lparr>sent =
         [\<lparr>http_method = ''GET'', url = ''https://api.johnsosoka.com/v1/ip/my'', headers = [],
           json_arg = None, request_timeout = PyFloat 30 ''30.0''\<rparr>],
       console = [Text ''[cyan]Fetching current public IP...[/cyan]''],
       err_console = []\<rparr>)"
  by (simp add: run_defs)

subsection \<open>Validation of the options\<close>

text \<open>
  Claim C9. The options are validated before anything else happens. With \<^verbatim>\<open>--ip\<close> and
  \<^verbatim>\<open>--use-current-ip\<close> both set the command exits with 1, and what it prints on the
  error console is the mutually-exclusive message; with neither set it exits with 1, and
  what it prints is that one of the two must be provided; in both cases no request is
  issued. With exactly one of them set the command goes on to the requests: once the
  client is built and the request is announced on the console, the first request is the
  GET of the current address under \<^verbatim>\<open>--use-current-ip\<close>, and the POST of the update under
  \<^verbatim>\<open>--ip\<close>. An option \<^verbatim>\<open>--ip\<close> is set when its string is not empty (claim C10).
\<close>

theorem dns_update_validation:
  assumes "r = dns_update rich to_float env st net domain ip_address use_current_ip w"
  shows "(truthy_str ip_address \<and> use_current_ip \<longrightarrow>
      exit_code (fst r) = 1 \<and> sent (snd r) = sent w \<and> console (snd r) = console w
      \<and> (rich (Text ''[red]Error:[/red] --ip and --use-current-ip are mutually exclusive. Provide one or the other.'') = None \<longrightarrow>
           r = (Inl (Exit 1),
                w\<lparr>err_console := err_console w @
                  [''[red]Error:[/red] --ip and --use-current-ip are mutually exclusive. Provide one or the other.'']\<rparr>)))
   \<and> (\<not> truthy_str ip_address \<and> \<not> use_current_ip \<longrightarrow>
      exit_code (fst r) = 1 \<and> sent (snd r) = sent w \<and> console (snd r) = console w
      \<and> (rich (Text ''[red]Error:[/red] Either --ip or --use-current-ip must be provided.'') = None \<longrightarrow>
           r = (Inl (Exit 1),
                w\<lparr>err_console := err_console w @
                  [''[red]Error:[/red] Either --ip or --use-current-ip must be provided.'']\<rparr>)))
   \<and> (\<forall>cl. \<not> truthy_str ip_address \<and> use_current_ip
           \<and> resolve to_float env (state_base_url st) (state_token st) None = Inr cl
           \<and> rich (Text ''[cyan]Fetching current public IP...[/cyan]'') = None \<longrightarrow>
        (\<exists>rest. sent (snd r) = sent w @ get_my_ip_request cl # rest))
   \<and> (\<forall>cl s. ip_address = Some s \<and> s \<noteq> [] \<and> \<not> use_current_ip
           \<and> resolve to_float env (state_base_url st) (state_token st) None = Inr cl
           \<and> rich (Text (''[cyan]Updating DNS record for '' @ domain @ ''...[/cyan]'')) = None \<longrightarrow>
        sent (snd r) = sent w @ [update_dns_request cl domain (JStr s)])"
proof (intro conjI allI impI)
  fix cl
  assume a: "\<not> truthy_str ip_address \<and> use_current_ip
           \<and> resolve to_float env (state_base_url st) (state_token st) None = Inr cl
           \<and> rich (Text ''[cyan]Fetching current public IP...[/cyan]'') = None"
  then have "truthy_str ip_address \<noteq> use_current_ip" by auto
  from dns_update_sent_after_validation [OF this] a assms
  show "\<exists>rest. sent (snd r) = sent w @ get_my_ip_request cl # rest"
    by (simp add: dns_update_try_sent)
next
  fix cl s
  assume a: "ip_address = Some s \<and> s \<noteq> [] \<and> \<not> use_current_ip
           \<and> resolve to_float env (state_base_url st) (state_token st) None = Inr cl
           \<and> rich (Text (''[cyan]Updating DNS record for '' @ domain @ ''...[/cyan]'')) = None"
  then have "truthy_str ip_address \<noteq> use_current_ip" by (auto simp: truthy_str_def)
  from dns_update_sent_after_validation [OF this] a assms
  show "sent (snd r) = sent w @ [update_dns_request cl domain (JStr s)]"
    by (simp add: dns_update_try_sent fetch_target_ip_explicit truthy_def)
qed (use assms in \<open>auto simp: dns_update_def and_then_def raise_def err_print_def exit_code_def
       split: option.splits\<close>)

theorem dns_update_validation_witness:
  "dns_update rich_examples float_examples clean_env no_options
     (mock_api ''https://api.johnsosoka.com'' ip_response updated_response)
     ''mc.example.com.'' (Some ''203.0.113.42'') True world0 =
     (Inl (Exit 1),
      \<lparr>sent = [], console = [],
       err_console = [''[red]Error:[/red] --ip and --use-current-ip are mutually exclusive. Provide one or the other.'']\<rparr>)
   \<and> dns_update rich_examples float_examples clean_env no_options
     (mock_api ''https://api.johnsosoka.com'' ip_response updated_response)
     ''mc.example.com.'' None False world0 =
     (Inl (Exit 1),
      \<lparr>sent = [], console = [],
       err_console = [''[red]Error:[/red] Either --ip or --use-current-ip must be provided.'']\<rparr>)
   \<and> sent (snd (dns_update rich_examples float_examples clean_env no_options
                   (mock_api ''https://api.johnsosoka.com'' ip_response updated_response)
                   ''mc.example.com.'' (Some ''203.0.113.42'') False world0)) =
     [\<lparr>http_method = ''POST'', url = ''https://api.johnsosoka.com/v1/dns/update'',
       headers = [(''Content-Type'', ''application/json'')],
       json_arg = Some (JObj [(''domain'', JStr ''mc.example.com.''), (''ip'', JStr ''203.0.113.42'')]),
       request_timeout = PyFloat 30 ''30.0''\<rparr>]
   \<and> (\<exists>rest. sent (snd (dns_update rich_examples float_examples clean_env no_options
                   (mock_api ''https://api.johnsosoka.com'' ip_response updated_response)
                   ''mc.example.com.'' None True world0)) =
     \<lparr>http_method = ''GET'', url = ''https://api.johnsosoka.com/v1/ip/my'', headers = [],
      json_arg = None, request_timeout = PyFloat 30 ''30.0''\<rparr> # rest)"
proof -
  have c: "resolve float_examples clean_env (state_base_url no_options) (state_token no_options) None =
     Inr \<lparr>self_base_url = ''https://api.johnsosoka.com'', self_auth_token = None,
          self_timeout = PyFloat 30 ''30.0''\<rparr>"
    by (simp add: resolve_def load_config_def JscomApiClient_def rstrip_def default_config_def
          or_str_def or_opt_def truthy_str_def clean_env_def no_options_def)
  show ?thesis
    using c
      dns_update_validation [OF refl, of "Some ''203.0.113.42''" True rich_examples float_examples
        clean_env no_options "mock_api ''https://api.johnsosoka.com'' ip_response updated_response"
        "''mc.example.com.''" world0]
      dns_update_validation [OF refl, of None False rich_examples float_examples
        clean_env no_options "mock_api ''https://api.johnsosoka.com'' ip_response updated_response"
        "''mc.example.com.''" world0]
      dns_update_validation [OF refl, of "Some ''203.0.113.42''" False rich_examples float_examples
        clean_env no_options "mock_api ''https://api.johnsosoka.com'' ip_response updated_response"
        "''mc.example.com.''" world0]
      dns_update_validation [OF refl, of None True rich_examples float_examples
        clean_env no_options "mock_api ''https://api.johnsosoka.com'' ip_response updated_response"
        "''mc.example.com.''" world0]
    by (simp add: truthy_str_def world0_def update_dns_request_def get_my_ip_request_def
          rich_examples_def)
qed

subsection \<open>An empty \<^verbatim>\<open>--ip\<close>\<close>

text \<open>
  Claim C10. An option \<^verbatim>\<open>--ip ""\<close> counts as absent. Without \<^verbatim>\<open>--use-current-ip\<close> the
  command exits with 1 without a request, and what it prints on the error console is that
  one of the two options must be provided, as when \<^verbatim>\<open>--ip\<close> is not given. With
  \<^verbatim>\<open>--use-current-ip\<close> the command does in every respect what it does when \<^verbatim>\<open>--ip\<close> is not
  given: it prints no mutually-exclusive message; whenever its first step yields a target,
  the target is the address that \<^verbatim>\<open>get_my_ip\<close> returned; and once the client is built, the
  address is fetched and not empty, and the three lines on the way are printed, the
  requests are the GET and then the POST of the fetched address.
\<close>

theorem dns_update_empty_ip:
  "exit_code (fst (dns_update rich to_float env st net domain (Some []) False w)) = 1
   \<and> sent (snd (dns_update rich to_float env st net domain (Some []) False w)) = sent w
   \<and> (rich (Text ''[red]Error:[/red] Either --ip or --use-current-ip must be provided.'') = None \<longrightarrow>
        dns_update rich to_float env st net domain (Some []) False w =
          (Inl (Exit 1),
           w\<lparr>err_console := err_console w @
             [''[red]Error:[/red] Either --ip or --use-current-ip must be provided.'']\<rparr>))
   \<and> dns_update rich to_float env st net domain (Some []) False w =
       dns_update rich to_float env st net domain None False w
   \<and> dns_update rich to_float env st net domain (Some []) True w =
       dns_update rich to_float env st net domain None True w
   \<and> (''[red]Error:[/red] --ip and --use-current-ip are mutually exclusive. Provide one or the other.''
         \<in> set (err_console (snd (dns_update rich to_float env st net domain (Some []) True w)))
        \<longleftrightarrow> ''[red]Error:[/red] --ip and --use-current-ip are mutually exclusive. Provide one or the other.''
              \<in> set (err_console w))
   \<and> (\<forall>cl t w'. fetch_target_ip rich net cl (Some []) True w = (Inr t, w') \<longrightarrow>
         (\<exists>ip_result. get_my_ip_outcome (net (get_my_ip_request cl)) = Inr ip_result
                       \<and> ip ip_result = t))
   \<and> (\<forall>cl ip_result.
         resolve to_float env (state_base_url st) (state_token st) None = Inr cl
         \<and> rich (Text ''[cyan]Fetching current public IP...[/cyan]'') = None
         \<and> get_my_ip_outcome (net (get_my_ip_request cl)) = Inr ip_result
         \<and> rich (Text (''[cyan]Current IP:[/cyan] '' @ py_str (ip ip_result))) = None
         \<and> truthy (ip ip_result)
         \<and> rich (Text (''[cyan]Updating DNS record for '' @ domain @ ''...[/cyan]'')) = None \<longrightarrow>
         sent (snd (dns_update rich to_float env st net domain (Some []) True w)) =
           sent w @ [get_my_ip_request cl, update_dns_request cl domain (ip ip_result)])"
proof -
  let ?must = "''[red]Error:[/red] Either --ip or --use-current-ip must be provided.''"
  let ?mutual = "''[red]Error:[/red] --ip and --use-current-ip are mutually exclusive. Provide one or the other.''"
  have x: "exit_code (fst (dns_update rich to_float env st net domain (Some []) False w)) = 1"
    by (simp add: dns_update_exit_code_invalid truthy_str_def)
  have s: "sent (snd (dns_update rich to_float env st net domain (Some []) False w)) = sent w"
    by (auto simp: dns_update_def truthy_str_def and_then_def raise_def err_print_def
             split: option.splits)
  have v: "rich (Text ?must) = None \<longrightarrow>
        dns_update rich to_float env st net domain (Some []) False w =
          (Inl (Exit 1), w\<lparr>err_console := err_console w @ [?must]\<rparr>)"
    by (simp add: dns_update_def truthy_str_def and_then_def raise_def err_print_def)
  have n: "dns_update rich to_float env st net domain (Some []) False w =
           dns_update rich to_float env st net domain None False w"
    by (simp add: dns_update_def truthy_str_def)
  have t: "dns_update_try rich to_float env st net domain (Some []) True =
           dns_update_try rich to_float env st net domain None True"
    by (simp add: dns_update_try_def Let_def fetch_target_ip_ignores_ip [of _ _ _ "Some []"]
          split: sum.splits)
  have e: "dns_update rich to_float env st net domain (Some []) True w =
           dns_update rich to_float env st net domain None True w"
    by (simp add: dns_update_def truthy_str_def t)
  have m: "?mutual \<in> set (err_console (snd (dns_update rich to_float env st net domain (Some []) True w)))
        \<longleftrightarrow> ?mutual \<in> set (err_console w)"
  proof (cases "dns_update_try rich to_float env st net domain (Some []) True w")
    case (Pair r w')
    have c: "err_console w' = err_console w
             \<or> err_console w' = err_console w @ [''[red]Error:[/red] No IP address available'']"
      using dns_update_try_err_console [of rich to_float env st net domain "Some []" True w] Pair
      by simp
    show ?thesis
    proof (cases r)
      case (Inr u)
      with Pair c show ?thesis
        by (auto simp: dns_update_def truthy_str_def)
    next
      case (Inl x)
      have "err_console (snd (dns_update rich to_float env st net domain (Some []) True w)) =
              err_console w'
                @ (if rich (Text (fst (dns_update_except x))) = None
                   then [fst (dns_update_except x)] else [])"
        using Pair Inl
        by (auto simp: dns_update_def truthy_str_def and_then_def raise_def err_print_def
                 split: option.splits)
      with c dns_update_except_message [of x] dns_update_except_message [of x, THEN not_sym]
      show ?thesis by auto
    qed
  qed
  have f: "\<forall>cl t w'. fetch_target_ip rich net cl (Some []) True w = (Inr t, w') \<longrightarrow>
         (\<exists>ip_result. get_my_ip_outcome (net (get_my_ip_request cl)) = Inr ip_result
                       \<and> ip ip_result = t)"
    using fetch_target_ip_fetched by blast
  have p: "\<forall>cl ip_result.
         resolve to_float env (state_base_url st) (state_token st) None = Inr cl
         \<and> rich (Text ''[cyan]Fetching current public IP...[/cyan]'') = None
         \<and> get_my_ip_outcome (net (get_my_ip_request cl)) = Inr ip_result
         \<and> rich (Text (''[cyan]Current IP:[/cyan] '' @ py_str (ip ip_result))) = None
         \<and> truthy (ip ip_result)
         \<and> rich (Text (''[cyan]Updating DNS record for '' @ domain @ ''...[/cyan]'')) = None \<longrightarrow>
         sent (snd (dns_update rich to_float env st net domain (Some []) True w)) =
           sent w @ [get_my_ip_request cl, update_dns_request cl domain (ip ip_result)]"
  proof (intro allI impI)
    fix cl ip_result
    assume a: "resolve to_float env (state_base_url st) (state_token st) None = Inr cl
         \<and> rich (Text ''[cyan]Fetching current public IP...[/cyan]'') = None
         \<and> get_my_ip_outcome (net (get_my_ip_request cl)) = Inr ip_result
         \<and> rich (Text (''[cyan]Current IP:[/cyan] '' @ py_str (ip ip_result))) = None
         \<and> truthy (ip ip_result)
         \<and> rich (Text (''[cyan]Updating DNS record for '' @ domain @ ''...[/cyan]'')) = None"
    have d: "truthy_str (Some []) \<noteq> True" by (simp add: truthy_str_def)
    have g: "fst (fetch_target_ip rich net cl (Some []) True w) = Inr (ip ip_result)"
      using a by (simp add: fetch_target_ip_rendered)
    show "sent (snd (dns_update rich to_float env st net domain (Some []) True w)) =
           sent w @ [get_my_ip_request cl, update_dns_request cl domain (ip ip_result)]"
      using a g dns_update_sent_after_validation [OF d, of rich to_float env st net domain w]
      by (simp add: dns_update_try_sent)
  qed
  show ?thesis
    using x s v n e m f p by blast
qed

theorem dns_update_empty_ip_witness:
  "dns_update rich_examples float_examples clean_env no_options
     (mock_api ''https://api.johnsosoka.com'' ip_response updated_response)
     ''mc.example.com.'' (Some []) False world0 =
     (Inl (Exit 1),
      \<lparr>sent = [], console = [],
       err_console = [''[red]Error:[/red] Either --ip or --use-current-ip must be provided.'']\<rparr>)
   \<and> dns_update rich_examples float_examples clean_env no_options
     (mock_api ''https://api.johnsosoka.com'' ip_response updated_response)
     ''mc.example.com.'' (Some []) True world0 =
     (Inr (),
      \<lparr>sent =
         [\<lparr>http_method = ''GET'', url = ''https://api.johnsosoka.com/v1/ip/my'', headers = [],
           json_arg = None, request_timeout = PyFloat 30 ''30.0''\<rparr>,
          \<lparr>http_method = ''POST'', url = ''https://api.johnsosoka.com/v1/dns/update'',
           headers = [(''Content-Type'', ''application/json'')],
           json_arg = Some (JObj [(''domain'', JStr ''mc.example.com.''),
                                  (''ip'', JStr ''203.0.113.42'')]),
           request_timeout = PyFloat 30 ''30.0''\<rparr>],
       console =
         [Text ''[cyan]Fetching current public IP...[/cyan]'',
          Text ''[cyan]Current IP:[/cyan] 203.0.113.42'',
          Text ''[cyan]Updating DNS record for mc.example.com....[/cyan]'',
          Text ''[green]Success![/green] DNS record updated successfully'',
          Text (CHR 0x0A # ''[cyan]Change Info:[/cyan]''),
          Table [(''id'', ''C1234567890ABC''), (''status'', ''PENDING'')]],
       err_console = []\<rparr>)"
proof -
  have n: "dns_update rich_examples float_examples clean_env no_options
     (mock_api ''https://api.johnsosoka.com'' ip_response updated_response)
     ''mc.example.com.'' None True world0 =
     (Inr (),
      \<lparr>sent =
         [\<lparr>http_method = ''GET'', url = ''https://api.johnsosoka.com/v1/ip/my'', headers = [],
           json_arg = None, request_timeout = PyFloat 30 ''30.0''\<rparr>,
          \<lparr>http_method = ''POST'', url = ''https://api.johnsosoka.com/v1/dns/update'',
           headers = [(''Content-Type'', ''application/json'')],
           json_arg = Some (JObj [(''domain'', JStr ''mc.example.com.''),
                                  (''ip'', JStr ''203.0.113.42'')]),
           request_timeout = PyFloat 30 ''30.0''\<rparr>],
       console =
         [Text ''[cyan]Fetching current public IP...[/cyan]'',
          Text ''[cyan]Current IP:[/cyan] 203.0.113.42'',
          Text ''[cyan]Updating DNS record for mc.example.com....[/cyan]'',
          Text ''[green]Success![/green] DNS record updated successfully'',
          Text (CHR 0x0A # ''[cyan]Change Info:[/cyan]''),
          Table [(''id'', ''C1234567890ABC''), (''status'', ''PENDING'')]],
       err_console = []\<rparr>)"
    by (simp add: run_defs)
  show ?thesis
    using n dns_update_empty_ip [of rich_examples float_examples clean_env no_options
        "mock_api ''https://api.johnsosoka.com'' ip_response updated_response"
        "''mc.example.com.''" world0]
    by (simp add: world0_def rich_examples_def)
qed

end
